theory Spec2Isabelle
  imports Complex_Main
begin

section \<open>Data model\<close>

text \<open>
  The repository holds two pan/zoom variants of the drawing component:
  \<^verbatim>\<open>CollaborativeDrawingTool\<close> (src/unnamed/part_000) and \<^verbatim>\<open>RealTimeMapApp\<close>
  (src/unnamed/part_001). Functions of the first carry the prefix \<open>cdt_\<close>, functions of
  the second the prefix \<open>rtm_\<close>; apart from the prefix they keep the names of the source.

  A JavaScript \<^verbatim>\<open>number\<close> that holds a coordinate, an extent, a scale or a time in
  milliseconds is a \<^typ>\<open>real\<close>: arithmetic is exact, and rounding, \<^verbatim>\<open>NaN\<close> and overflow
  are outside the model. The one place where the source itself distinguishes \<^verbatim>\<open>Infinity\<close>
  is the expiry time, which has a datatype of its own.
\<close>

type_synonym point = "real \<times> real"

datatype ToolType = Pen | Arrow | Circle | Emoji

datatype jsnumber = Finite real | Infinity

text \<open>\<^verbatim>\<open>interface DrawAction\<close>; the optional fields \<^verbatim>\<open>emoji?\<close> and \<^verbatim>\<open>expireAt?\<close> are options.\<close>

record DrawAction =
  userId :: string
  userName :: string
  color :: string
  tool :: ToolType
  lineWidth :: real
  start :: point
  endp :: point
  emoji :: "string option"
  expireAt :: "jsnumber option"

text \<open>The DOM objects the component reads: the canvas with the size of its backing store
  and its bounding client rectangle, the container element found through the ref, and
  the decoded background image.\<close>

record DOMRect =
  rect_left :: real
  rect_top :: real
  rect_width :: real
  rect_height :: real

record HTMLCanvasElement =
  canvas_width :: real
  canvas_height :: real
  getBoundingClientRect :: DOMRect

datatype HTMLDivElement = Container (querySelector_canvas: "HTMLCanvasElement option")

record HTMLImageElement =
  img_width :: real
  img_height :: real

text \<open>\<^verbatim>\<open>ref.current?.querySelector('canvas')\<close>: nothing when the ref is empty or the
  container holds no canvas.\<close>

definition current_canvas :: "HTMLDivElement option \<Rightarrow> HTMLCanvasElement option" where
  "current_canvas r = (case r of None \<Rightarrow> None | Some d \<Rightarrow> querySelector_canvas d)"

text \<open>Events, following the DOM hierarchy (a wheel event is a mouse event).\<close>

record ModifierEvent =
  ctrlKey :: bool
  metaKey :: bool

record KeyboardEvent = ModifierEvent +
  key :: string

record MouseEvent = ModifierEvent +
  clientX :: real
  clientY :: real
  button :: int

record WheelEvent = MouseEvent +
  deltaY :: real

text \<open>Component state. The fields both components declare under the same name are in the
  base record; \<open>st_userId\<close>, \<open>st_userName\<close> and \<open>st_lineWidth\<close> are the component's
  \<^verbatim>\<open>userId\<close>, \<^verbatim>\<open>userName\<close> and \<^verbatim>\<open>lineWidth\<close> (the plain names are fields of
  \<^typ>\<open>DrawAction\<close>).\<close>

record component =
  st_userId :: string
  st_userName :: string
  st_lineWidth :: real
  selectedEmoji :: string
  fadeSetting :: string
  scale :: real
  isPanning :: bool
  panStart :: point
  isDrawing :: bool

record CollaborativeDrawingTool = component +
  userColor :: string
  activeTool :: ToolType
  drawActions :: "DrawAction list"
  startPoint :: point
  backgroundImage :: "HTMLImageElement option"
  panX :: real
  panY :: real
  containerRef :: "HTMLDivElement option"

record RealTimeMapApp = component +
  userColour :: string
  currentTool :: ToolType
  actions :: "DrawAction list"
  canvasContainerRef :: "HTMLDivElement option"
  pan :: point
  drawStart :: point
  bgImage :: "HTMLImageElement option"
  menuOpen :: bool
  menuPos :: point

section \<open>Coordinate transform and pan clamp\<close>

text \<open>part_000, \<^verbatim>\<open>screenToWorld\<close> (lines 239-258).\<close>

definition cdt_screenToWorld :: "CollaborativeDrawingTool \<Rightarrow> real \<Rightarrow> real \<Rightarrow> point" where
  "cdt_screenToWorld st screenX screenY =
     (case containerRef st of
        None \<Rightarrow> (screenX, screenY)
      | Some d \<Rightarrow>
         (case querySelector_canvas d of
            None \<Rightarrow> (screenX, screenY)
          | Some canvas \<Rightarrow>
             (let rect = getBoundingClientRect canvas;
                  localX = screenX - rect_left rect;
                  localY = screenY - rect_top rect;
                  worldX = localX / scale st + panX st;
                  worldY = localY / scale st + panY st
              in (worldX, worldY))))"

text \<open>part_000, \<^verbatim>\<open>clampPan\<close> (lines 263-358).\<close>

definition cdt_clampPan :: "CollaborativeDrawingTool \<Rightarrow> real \<Rightarrow> real \<Rightarrow> real \<Rightarrow> point" where
  "cdt_clampPan st px py sc =
     (case current_canvas (containerRef st) of
        None \<Rightarrow> (px, py)
      | Some canvas \<Rightarrow>
         (let cw = canvas_width canvas;
              ch = canvas_height canvas
          in (case backgroundImage st of
                None \<Rightarrow> (px, py)
              | Some bg \<Rightarrow>
                 (let bgw = img_width bg;
                      bgh = img_height bg;
                      minPanX = 0;
                      minPanY = 0;
                      maxPanX = bgw - cw / sc;
                      maxPanX = (if maxPanX < 0 then 0 else maxPanX);
                      maxPanY = bgh - ch / sc;
                      maxPanY = (if maxPanY < 0 then 0 else maxPanY);
                      clampedX = px;
                      clampedY = py;
                      clampedX = (if clampedX < minPanX then minPanX else clampedX);
                      clampedX = (if clampedX > maxPanX then maxPanX else clampedX);
                      clampedY = (if clampedY < minPanY then minPanY else clampedY);
                      clampedY = (if clampedY > maxPanY then maxPanY else clampedY)
                  in (clampedX, clampedY)))))"

text \<open>part_001, \<^verbatim>\<open>screenToWorld\<close> (lines 236-244) and \<^verbatim>\<open>clampPan\<close> (lines 247-258).\<close>

definition rtm_screenToWorld :: "RealTimeMapApp \<Rightarrow> real \<Rightarrow> real \<Rightarrow> point" where
  "rtm_screenToWorld st sx sy =
     (case current_canvas (canvasContainerRef st) of
        None \<Rightarrow> (sx, sy)
      | Some canvas \<Rightarrow>
         (let rect = getBoundingClientRect canvas
          in ((sx - rect_left rect) / scale st + fst (pan st),
              (sy - rect_top rect) / scale st + snd (pan st))))"

definition rtm_clampPan :: "RealTimeMapApp \<Rightarrow> real \<Rightarrow> real \<Rightarrow> real \<Rightarrow> point" where
  "rtm_clampPan st px py sc =
     (case (current_canvas (canvasContainerRef st), bgImage st) of
        (Some canvas, Some bg) \<Rightarrow>
          (let maxX = max 0 (img_width bg - canvas_width canvas / sc);
               maxY = max 0 (img_height bg - canvas_height canvas / sc)
           in (min (max 0 px) maxX, min (max 0 py) maxY))
      | _ \<Rightarrow> (px, py))"

section \<open>Viewport controller\<close>

text \<open>part_000, \<^verbatim>\<open>handleWheel\<close> (lines 505-542). The literal \<^verbatim>\<open>1.1\<close> is \<open>11 / 10\<close>.\<close>

definition cdt_handleWheel :: "CollaborativeDrawingTool \<Rightarrow> WheelEvent \<Rightarrow> CollaborativeDrawingTool" where
  "cdt_handleWheel st e =
     (case current_canvas (containerRef st) of
        None \<Rightarrow> st
      | Some canvas \<Rightarrow>
         (let rect = getBoundingClientRect canvas;
              mouseX = clientX e - rect_left rect;
              mouseY = clientY e - rect_top rect;
              newScale = scale st;
              newScale =
                (if deltaY e < 0
                 then (let newScale = newScale * (11 / 10) in if newScale > 4 then 4 else newScale)
                 else (let newScale = newScale / (11 / 10) in if newScale < 1 then 1 else newScale));
              worldXBefore = mouseX / scale st + panX st;
              worldYBefore = mouseY / scale st + panY st;
              worldXAfter = worldXBefore;
              worldYAfter = worldYBefore;
              newPanX = worldXAfter - mouseX / newScale;
              newPanY = worldYAfter - mouseY / newScale;
              clamped = cdt_clampPan st newPanX newPanY newScale
          in st\<lparr>scale := newScale, panX := fst clamped, panY := snd clamped\<rparr>))"

text \<open>part_000, \<^verbatim>\<open>zoomAroundCenter\<close>, \<^verbatim>\<open>zoomIn\<close>, \<^verbatim>\<open>zoomOut\<close>, \<^verbatim>\<open>resetZoom\<close>
  (lines 544-584).\<close>

definition cdt_zoomAroundCenter :: "CollaborativeDrawingTool \<Rightarrow> real \<Rightarrow> CollaborativeDrawingTool" where
  "cdt_zoomAroundCenter st newScale =
     (case current_canvas (containerRef st) of
        None \<Rightarrow> st\<lparr>scale := newScale\<rparr>
      | Some canvas \<Rightarrow>
         (let rect = getBoundingClientRect canvas;
              centerX = rect_width rect / 2;
              centerY = rect_height rect / 2;
              worldXBefore = centerX / scale st + panX st;
              worldYBefore = centerY / scale st + panY st;
              newPanX = worldXBefore - centerX / newScale;
              newPanY = worldYBefore - centerY / newScale;
              clamped = cdt_clampPan st newPanX newPanY newScale
          in st\<lparr>scale := newScale, panX := fst clamped, panY := snd clamped\<rparr>))"

definition cdt_zoomIn :: "CollaborativeDrawingTool \<Rightarrow> CollaborativeDrawingTool" where
  "cdt_zoomIn st =
     (let newScale = scale st * (11 / 10);
          newScale = (if newScale > 4 then 4 else newScale)
      in cdt_zoomAroundCenter st newScale)"

definition cdt_zoomOut :: "CollaborativeDrawingTool \<Rightarrow> CollaborativeDrawingTool" where
  "cdt_zoomOut st =
     (let newScale = scale st / (11 / 10);
          newScale = (if newScale < 1 then 1 else newScale)
      in cdt_zoomAroundCenter st newScale)"

definition cdt_resetZoom :: "CollaborativeDrawingTool \<Rightarrow> CollaborativeDrawingTool" where
  "cdt_resetZoom st = st\<lparr>scale := 1, panX := 0, panY := 0\<rparr>"

text \<open>part_001, \<^verbatim>\<open>handleWheel\<close> (lines 350-371) and \<^verbatim>\<open>zoomByFactor\<close> (lines 374-393).\<close>

definition rtm_handleWheel :: "RealTimeMapApp \<Rightarrow> WheelEvent \<Rightarrow> RealTimeMapApp" where
  "rtm_handleWheel st e =
     (case current_canvas (canvasContainerRef st) of
        None \<Rightarrow> st
      | Some canvas \<Rightarrow>
         (let rect = getBoundingClientRect canvas;
              localX = clientX e - rect_left rect;
              localY = clientY e - rect_top rect;
              newScale = scale st * (if deltaY e < 0 then 11 / 10 else 1 / (11 / 10));
              newScale = min (max 1 newScale) 4;
              worldX = localX / scale st + fst (pan st);
              worldY = localY / scale st + snd (pan st);
              newPan = rtm_clampPan st (worldX - localX / newScale) (worldY - localY / newScale) newScale
          in st\<lparr>scale := newScale, pan := newPan\<rparr>))"

definition rtm_zoomByFactor :: "RealTimeMapApp \<Rightarrow> real \<Rightarrow> RealTimeMapApp" where
  "rtm_zoomByFactor st factor =
     (let newScale = scale st * factor;
          newScale = min (max 1 newScale) 4
      in (case current_canvas (canvasContainerRef st) of
            None \<Rightarrow> st\<lparr>scale := newScale\<rparr>
          | Some canvas \<Rightarrow>
             (let rect = getBoundingClientRect canvas;
                  centerX = rect_width rect / 2;
                  centerY = rect_height rect / 2;
                  worldX = centerX / scale st + fst (pan st);
                  worldY = centerY / scale st + snd (pan st)
              in st\<lparr>scale := newScale,
                     pan := rtm_clampPan st (worldX - centerX / newScale)
                              (worldY - centerY / newScale) newScale\<rparr>)))"

text \<open>The two zoom buttons of part_001 (lines 773 and 776).\<close>

definition rtm_zoomInButton :: "RealTimeMapApp \<Rightarrow> RealTimeMapApp" where
  "rtm_zoomInButton st = rtm_zoomByFactor st (11 / 10)"

definition rtm_zoomOutButton :: "RealTimeMapApp \<Rightarrow> RealTimeMapApp" where
  "rtm_zoomOutButton st = rtm_zoomByFactor st (1 / (11 / 10))"

section \<open>Stroke recorder\<close>

text \<open>\<^verbatim>\<open>Date.now() + fadeMs\<close>: adding \<^verbatim>\<open>Infinity\<close> gives \<^verbatim>\<open>Infinity\<close>.\<close>

fun js_plus :: "jsnumber \<Rightarrow> jsnumber \<Rightarrow> jsnumber" where
  "js_plus (Finite a) (Finite b) = Finite (a + b)"
| "js_plus _ _ = Infinity"

text \<open>part_000, \<^verbatim>\<open>parseFadeTime\<close> (lines 81-90).\<close>

definition parseFadeTime :: "string \<Rightarrow> jsnumber" where
  "parseFadeTime v =
     (if v = ''10s'' then Finite 10000
      else if v = ''30s'' then Finite 30000
      else if v = ''1m'' then Finite 60000
      else if v = ''5m'' then Finite 300000
      else if v = ''10m'' then Finite 600000
      else Infinity)"

text \<open>part_001, \<^verbatim>\<open>FADE_OPTIONS\<close> and \<^verbatim>\<open>fadeToMs\<close> (lines 85-95); an option is
  (label, value, ms).\<close>

definition FADE_OPTIONS :: "(string \<times> string \<times> jsnumber) list" where
  "FADE_OPTIONS =
     [(''10 s'', ''10s'', Finite 10000),
      (''30 s'', ''30s'', Finite 30000),
      (''1 min'', ''1m'', Finite 60000),
      (''5 min'', ''5m'', Finite 300000),
      (''10 min'', ''10m'', Finite 600000),
      (''Permanent'', ''permanent'', Infinity)]"

definition fadeToMs :: "string \<Rightarrow> jsnumber" where
  "fadeToMs v =
     (case find (\<lambda>opt. fst (snd opt) = v) FADE_OPTIONS of
        None \<Rightarrow> Infinity
      | Some opt \<Rightarrow> snd (snd opt))"

text \<open>part_001, \<^verbatim>\<open>pushAction\<close> (lines 265-280); \<open>now\<close> is the value of \<^verbatim>\<open>Date.now()\<close>.\<close>

definition pushAction :: "RealTimeMapApp \<Rightarrow> real \<Rightarrow> ToolType \<Rightarrow> point \<Rightarrow> point \<Rightarrow> RealTimeMapApp" where
  "pushAction st now tool_id start_pt end_pt =
     st\<lparr>actions := actions st @
          [\<lparr>userId = st_userId st,
            userName = st_userName st,
            color = userColour st,
            tool = tool_id,
            lineWidth = st_lineWidth st,
            start = start_pt,
            endp = end_pt,
            emoji = Some (selectedEmoji st),
            expireAt = Some (js_plus (Finite now) (fadeToMs (fadeSetting st)))\<rparr>]\<rparr>"

section \<open>Gesture router\<close>

text \<open>part_000, \<^verbatim>\<open>handleMouseDown\<close>, \<^verbatim>\<open>handleMouseMove\<close>, \<^verbatim>\<open>handleMouseUp\<close>
  (lines 363-444); \<open>now\<close> is the value of \<^verbatim>\<open>Date.now()\<close> when the handler runs.\<close>

definition cdt_handleMouseDown :: "CollaborativeDrawingTool \<Rightarrow> MouseEvent \<Rightarrow> CollaborativeDrawingTool" where
  "cdt_handleMouseDown st e =
     (if containerRef st = None then st
      else if ctrlKey e then st\<lparr>isPanning := True, panStart := (clientX e, clientY e)\<rparr>
      else (let xy = cdt_screenToWorld st (clientX e) (clientY e)
            in st\<lparr>startPoint := (fst xy, snd xy), isDrawing := True\<rparr>))"

definition cdt_handleMouseMove ::
    "CollaborativeDrawingTool \<Rightarrow> real \<Rightarrow> MouseEvent \<Rightarrow> CollaborativeDrawingTool" where
  "cdt_handleMouseMove st now e =
     (if isPanning st then
        (let dx = clientX e - fst (panStart st);
             dy = clientY e - snd (panStart st);
             nx = panX st - dx / scale st;
             ny = panY st - dy / scale st;
             clamped = cdt_clampPan st nx ny (scale st)
         in st\<lparr>panStart := (clientX e, clientY e), panX := fst clamped, panY := snd clamped\<rparr>)
      else if \<not> isDrawing st then st
      else if activeTool st = Pen then
        (let xy = cdt_screenToWorld st (clientX e) (clientY e);
             fadeMs = parseFadeTime (fadeSetting st);
             expireAt = (if fadeMs = Infinity then Infinity else js_plus (Finite now) fadeMs);
             newAction =
               \<lparr>userId = st_userId st,
                userName = st_userName st,
                color = userColor st,
                tool = Pen,
                lineWidth = st_lineWidth st,
                start = (fst (startPoint st), snd (startPoint st)),
                endp = (fst xy, snd xy),
                emoji = None,
                expireAt = Some expireAt\<rparr>
         in st\<lparr>drawActions := drawActions st @ [newAction], startPoint := (fst xy, snd xy)\<rparr>)
      else st)"

definition cdt_handleMouseUp ::
    "CollaborativeDrawingTool \<Rightarrow> real \<Rightarrow> MouseEvent \<Rightarrow> CollaborativeDrawingTool" where
  "cdt_handleMouseUp st now e =
     (if isPanning st then st\<lparr>isPanning := False\<rparr>
      else if \<not> isDrawing st then st
      else
        (let xy = cdt_screenToWorld st (clientX e) (clientY e);
             fadeMs = parseFadeTime (fadeSetting st);
             expireAt = (if fadeMs = Infinity then Infinity else js_plus (Finite now) fadeMs);
             st1 =
               (if activeTool st = Arrow \<or> activeTool st = Circle \<or> activeTool st = Emoji then
                  (let newAction =
                         \<lparr>userId = st_userId st,
                          userName = st_userName st,
                          color = userColor st,
                          tool = activeTool st,
                          lineWidth = st_lineWidth st,
                          start = (fst (startPoint st), snd (startPoint st)),
                          endp = (fst xy, snd xy),
                          emoji = Some (selectedEmoji st),
                          expireAt = Some expireAt\<rparr>
                   in st\<lparr>drawActions := drawActions st @ [newAction]\<rparr>)
                else st)
         in st1\<lparr>isDrawing := False\<rparr>))"

text \<open>part_001, \<^verbatim>\<open>handleMouseDown\<close>, \<^verbatim>\<open>handleMouseMove\<close>, \<^verbatim>\<open>handleMouseUp\<close>
  (lines 286-344).\<close>

definition rtm_handleMouseDown :: "RealTimeMapApp \<Rightarrow> MouseEvent \<Rightarrow> RealTimeMapApp" where
  "rtm_handleMouseDown st e =
     (if button e = 2 then st\<lparr>menuPos := (clientX e, clientY e), menuOpen := True\<rparr>
      else if menuOpen st then st\<lparr>menuOpen := False\<rparr>
      else if ctrlKey e then st\<lparr>isPanning := True, panStart := (clientX e, clientY e)\<rparr>
      else st\<lparr>isDrawing := True, drawStart := rtm_screenToWorld st (clientX e) (clientY e)\<rparr>)"

definition rtm_handleMouseMove :: "RealTimeMapApp \<Rightarrow> real \<Rightarrow> MouseEvent \<Rightarrow> RealTimeMapApp" where
  "rtm_handleMouseMove st now e =
     (if isPanning st then
        (let dx = clientX e - fst (panStart st);
             dy = clientY e - snd (panStart st)
         in st\<lparr>pan := rtm_clampPan st (fst (pan st) - dx / scale st)
                        (snd (pan st) - dy / scale st) (scale st),
                panStart := (clientX e, clientY e)\<rparr>)
      else if isDrawing st \<and> currentTool st = Pen then
        (let start_pt = drawStart st;
             end_pt = rtm_screenToWorld st (clientX e) (clientY e)
         in (pushAction st now Pen start_pt end_pt)\<lparr>drawStart := end_pt\<rparr>)
      else st)"

definition rtm_handleMouseUp :: "RealTimeMapApp \<Rightarrow> real \<Rightarrow> MouseEvent \<Rightarrow> RealTimeMapApp" where
  "rtm_handleMouseUp st now e =
     (if isPanning st then st\<lparr>isPanning := False\<rparr>
      else if \<not> isDrawing st then st
      else
        (let st1 = st\<lparr>isDrawing := False\<rparr>;
             endPt = rtm_screenToWorld st (clientX e) (clientY e)
         in pushAction st1 now (currentTool st) (drawStart st) endPt))"

text \<open>The pointer events the container element dispatches to the three handlers, each
  with the clock value at which its handler runs, and the states a sequence of them
  passes through.\<close>

datatype pointer_event = MouseDown MouseEvent | MouseMove MouseEvent | MouseUp MouseEvent

fun cdt_pointer :: "CollaborativeDrawingTool \<Rightarrow> real \<times> pointer_event \<Rightarrow> CollaborativeDrawingTool" where
  "cdt_pointer st (now, MouseDown e) = cdt_handleMouseDown st e"
| "cdt_pointer st (now, MouseMove e) = cdt_handleMouseMove st now e"
| "cdt_pointer st (now, MouseUp e) = cdt_handleMouseUp st now e"

fun rtm_pointer :: "RealTimeMapApp \<Rightarrow> real \<times> pointer_event \<Rightarrow> RealTimeMapApp" where
  "rtm_pointer st (now, MouseDown e) = rtm_handleMouseDown st e"
| "rtm_pointer st (now, MouseMove e) = rtm_handleMouseMove st now e"
| "rtm_pointer st (now, MouseUp e) = rtm_handleMouseUp st now e"

fun states :: "('s \<Rightarrow> 'e \<Rightarrow> 's) \<Rightarrow> 's \<Rightarrow> 'e list \<Rightarrow> 's list" where
  "states f s [] = [s]"
| "states f s (e # es) = s # states f (f s e) es"

text \<open>One gesture: a pointer-down, any number of moves, a pointer-up.\<close>

definition gesture ::
    "real \<times> MouseEvent \<Rightarrow> (real \<times> MouseEvent) list \<Rightarrow> real \<times> MouseEvent \<Rightarrow> (real \<times> pointer_event) list" where
  "gesture d ms u =
     (fst d, MouseDown (snd d)) # map (\<lambda>m. (fst m, MouseMove (snd m))) ms @ [(fst u, MouseUp (snd u))]"

text \<open>A sequence of gestures, one after the other.\<close>

definition gestures ::
    "((real \<times> MouseEvent) \<times> (real \<times> MouseEvent) list \<times> (real \<times> MouseEvent)) list
     \<Rightarrow> (real \<times> pointer_event) list" where
  "gestures gs = concat (map (\<lambda>g. gesture (fst g) (fst (snd g)) (snd (snd g))) gs)"

section \<open>Undo\<close>

text \<open>\<^verbatim>\<open>Array.prototype.slice(begin, end)\<close>: a negative index counts from the end of the
  array, and both indices are cut to the range of the array.\<close>

definition slice :: "'a list \<Rightarrow> int \<Rightarrow> int \<Rightarrow> 'a list" where
  "slice xs b e =
     (let n = int (length xs);
          k = (if b < 0 then max (n + b) 0 else min b n);
          final = (if e < 0 then max (n + e) 0 else min e n)
      in take (nat (final - k)) (drop (nat k) xs))"

text \<open>\<^verbatim>\<open>String.prototype.toLowerCase\<close> on the ASCII letters, which is what the \<^verbatim>\<open>key\<close>
  of a letter key holds; every other character is left as it is.\<close>

definition toLowerCase_char :: "char \<Rightarrow> char" where
  "toLowerCase_char c =
     (let n = (of_char c :: nat) in if 65 \<le> n \<and> n \<le> 90 then char_of (n + 32) else c)"

definition toLowerCase :: "string \<Rightarrow> string" where
  "toLowerCase s = map toLowerCase_char s"

text \<open>part_000, \<^verbatim>\<open>handleKeyDown\<close> (lines 449-471).\<close>

definition cdt_handleKeyDown :: "CollaborativeDrawingTool \<Rightarrow> KeyboardEvent \<Rightarrow> CollaborativeDrawingTool" where
  "cdt_handleKeyDown st e =
     (if key e = ''Backspace'' then st\<lparr>drawActions := slice (drawActions st) 0 (- 1)\<rparr>
      else (let isCtrlOrCmd = ctrlKey e \<or> metaKey e
            in if isCtrlOrCmd \<and> toLowerCase (key e) = ''z''
               then st\<lparr>drawActions := slice (drawActions st) 0 (- 1)\<rparr>
               else st))"

text \<open>part_001, the \<^verbatim>\<open>handler\<close> of the undo shortcuts (lines 174-192).\<close>

definition rtm_undo_handler :: "RealTimeMapApp \<Rightarrow> KeyboardEvent \<Rightarrow> RealTimeMapApp" where
  "rtm_undo_handler st e =
     (if key e = ''Backspace'' then st\<lparr>actions := slice (actions st) 0 (- 1)\<rparr>
      else (let isCtrlOrCmd = ctrlKey e \<or> metaKey e
            in if isCtrlOrCmd \<and> toLowerCase (key e) = ''z''
               then st\<lparr>actions := slice (actions st) 0 (- 1)\<rparr>
               else st))"

section \<open>Expiry sweeper\<close>

text \<open>\<^verbatim>\<open>!action.expireAt\<close>: true of \<^verbatim>\<open>undefined\<close> and of the number 0.\<close>

definition falsy :: "jsnumber option \<Rightarrow> bool" where
  "falsy v = (case v of None \<Rightarrow> True | Some (Finite t) \<Rightarrow> t = 0 | Some Infinity \<Rightarrow> False)"

text \<open>\<^verbatim>\<open>now < action.expireAt\<close>: false when the right-hand side is \<^verbatim>\<open>undefined\<close>.\<close>

definition js_less :: "real \<Rightarrow> jsnumber option \<Rightarrow> bool" where
  "js_less now v = (case v of None \<Rightarrow> False | Some (Finite t) \<Rightarrow> now < t | Some Infinity \<Rightarrow> True)"

text \<open>part_000, the callback of the fade interval (lines 170-183): the predicate of its
  \<^verbatim>\<open>filter\<close> and one tick at clock value \<open>now\<close>.\<close>

definition cdt_fade_keep :: "real \<Rightarrow> DrawAction \<Rightarrow> bool" where
  "cdt_fade_keep now action =
     (if falsy (expireAt action) \<or> expireAt action = Some Infinity then True
      else js_less now (expireAt action))"

definition cdt_fade_tick :: "CollaborativeDrawingTool \<Rightarrow> real \<Rightarrow> CollaborativeDrawingTool" where
  "cdt_fade_tick st now = st\<lparr>drawActions := filter (cdt_fade_keep now) (drawActions st)\<rparr>"

text \<open>part_001, the callback of the fade-out interval (lines 206-214).\<close>

definition rtm_fade_keep :: "real \<Rightarrow> DrawAction \<Rightarrow> bool" where
  "rtm_fade_keep now act =
     (falsy (expireAt act) \<or> expireAt act = Some Infinity \<or> js_less now (expireAt act))"

definition rtm_fade_tick :: "RealTimeMapApp \<Rightarrow> real \<Rightarrow> RealTimeMapApp" where
  "rtm_fade_tick st now = st\<lparr>actions := filter (rtm_fade_keep now) (actions st)\<rparr>"

section \<open>Renderer\<close>

text \<open>The current transform of a 2D context, restricted to what the paint effect uses
  (no rotation, no skew): a point \<open>(x, y)\<close> of the drawing is painted at canvas pixel
  \<open>(m_a * x + m_e, m_d * y + m_f)\<close>. \<^verbatim>\<open>ctx.translate\<close> and \<^verbatim>\<open>ctx.scale\<close> multiply the
  current transform from the right.\<close>

record DOMMatrix =
  m_a :: real
  m_d :: real
  m_e :: real
  m_f :: real

definition identity_matrix :: DOMMatrix where
  "identity_matrix = \<lparr>m_a = 1, m_d = 1, m_e = 0, m_f = 0\<rparr>"

definition ctx_translate :: "DOMMatrix \<Rightarrow> real \<Rightarrow> real \<Rightarrow> DOMMatrix" where
  "ctx_translate m tx ty = m\<lparr>m_e := m_e m + m_a m * tx, m_f := m_f m + m_d m * ty\<rparr>"

definition ctx_scale :: "DOMMatrix \<Rightarrow> real \<Rightarrow> real \<Rightarrow> DOMMatrix" where
  "ctx_scale m sx sy = m\<lparr>m_a := m_a m * sx, m_d := m_d m * sy\<rparr>"

definition transform_point :: "DOMMatrix \<Rightarrow> point \<Rightarrow> point" where
  "transform_point m p = (m_a m * fst p + m_e m, m_d m * snd p + m_f m)"

text \<open>part_001, the transform of the paint effect (lines 409-413), as a function of the
  \<^verbatim>\<open>pan\<close> and \<^verbatim>\<open>scale\<close> it reads.\<close>

definition paint_transform :: "point \<Rightarrow> real \<Rightarrow> DOMMatrix" where
  "paint_transform pn sc =
     ctx_scale (ctx_translate identity_matrix (- fst pn * sc) (- snd pn * sc)) sc sc"

text \<open>Where a canvas pixel is on the screen: the canvas is displayed at the size of its
  backing store, with its top-left corner at the corner of the bounding rectangle.\<close>

definition canvas_to_client :: "HTMLCanvasElement \<Rightarrow> point \<Rightarrow> point" where
  "canvas_to_client canvas p =
     (rect_left (getBoundingClientRect canvas) + fst p,
      rect_top (getBoundingClientRect canvas) + snd p)"

text \<open>The screen position at which the paint effect of part_001 draws a world point;
  without a canvas the effect returns before painting.\<close>

definition rtm_worldToScreen :: "RealTimeMapApp \<Rightarrow> point \<Rightarrow> point option" where
  "rtm_worldToScreen st w =
     (case current_canvas (canvasContainerRef st) of
        None \<Rightarrow> None
      | Some canvas \<Rightarrow>
          Some (canvas_to_client canvas (transform_point (paint_transform (pan st) (scale st)) w)))"

text \<open>part_000, the paint effect (lines 188-234): after \<^verbatim>\<open>ctx.save()\<close> the calls
  \<^verbatim>\<open>ctx.translate\<close> and \<^verbatim>\<open>ctx.scale\<close> are commented out (lines 198-200), so the actions
  are drawn under the transform a context starts with, the identity, whatever the pan
  and the scale of the state.\<close>

definition cdt_paint_transform :: "CollaborativeDrawingTool \<Rightarrow> DOMMatrix" where
  "cdt_paint_transform st = identity_matrix"

definition cdt_worldToScreen :: "CollaborativeDrawingTool \<Rightarrow> point \<Rightarrow> point option" where
  "cdt_worldToScreen st w =
     (case current_canvas (containerRef st) of
        None \<Rightarrow> None
      | Some canvas \<Rightarrow> Some (canvas_to_client canvas (transform_point (cdt_paint_transform st) w)))"

text \<open>The calls a draw helper makes on the 2D context, in order.\<close>

datatype canvas_op =
    BeginPath
  | MoveTo real real
  | LineTo real real
  | Stroke
  | ClosePath
  | Fill
  | SetStrokeStyle string
  | SetLineWidth real
  | SetFillStyleToStrokeStyle

text \<open>\<^verbatim>\<open>Math.atan2(y, x)\<close> on finite arguments; \<^verbatim>\<open>Math.atan2(0, 0)\<close> is 0.\<close>

definition atan2 :: "real \<Rightarrow> real \<Rightarrow> real" where
  "atan2 y x =
     (if 0 < x then arctan (y / x)
      else if x < 0 then (if 0 \<le> y then arctan (y / x) + pi else arctan (y / x) - pi)
      else if 0 < y then pi / 2
      else if y < 0 then - (pi / 2)
      else 0)"

text \<open>part_000, \<^verbatim>\<open>drawArrowHead\<close> (lines 893-916) and \<^verbatim>\<open>drawArrow\<close> (lines 856-891).\<close>

definition cdt_drawArrowHead ::
    "canvas_op list \<Rightarrow> real \<Rightarrow> real \<Rightarrow> real \<Rightarrow> real \<Rightarrow> real \<Rightarrow> canvas_op list" where
  "cdt_drawArrowHead ctx xTip yTip angle lw headLength =
     ctx @
     [BeginPath,
      MoveTo xTip yTip,
      LineTo (xTip - headLength * cos (angle - pi / 6)) (yTip - headLength * sin (angle - pi / 6)),
      LineTo (xTip - headLength * cos (angle + pi / 6)) (yTip - headLength * sin (angle + pi / 6)),
      ClosePath,
      SetFillStyleToStrokeStyle,
      Fill]"

definition cdt_drawArrow :: "canvas_op list \<Rightarrow> DrawAction \<Rightarrow> canvas_op list" where
  "cdt_drawArrow ctx action =
     (let x1 = fst (start action); y1 = snd (start action);
          x2 = fst (endp action); y2 = snd (endp action);
          lw = lineWidth action;
          angle = atan2 (y2 - y1) (x2 - x1);
          dx = x2 - x1;
          dy = y2 - y1;
          dist = sqrt (dx * dx + dy * dy);
          headLength = lw * 3;
          lineEndDistance = lw * (3 / 2)
      in if dist < lineEndDistance then cdt_drawArrowHead ctx x2 y2 angle lw headLength
         else
           (let xBase = x2 - lineEndDistance * cos angle;
                yBase = y2 - lineEndDistance * sin angle;
                ctx = ctx @
                  [BeginPath,
                   SetStrokeStyle (color action),
                   SetLineWidth lw,
                   MoveTo x1 y1,
                   LineTo xBase yBase,
                   Stroke]
            in cdt_drawArrowHead ctx x2 y2 angle lw headLength))"

text \<open>part_001, \<^verbatim>\<open>drawArrow\<close> (lines 817-847).\<close>

definition rtm_drawArrow :: "canvas_op list \<Rightarrow> DrawAction \<Rightarrow> canvas_op list" where
  "rtm_drawArrow ctx action =
     (let x1 = fst (start action); y1 = snd (start action);
          x2 = fst (endp action); y2 = snd (endp action);
          lw = lineWidth action;
          angle = atan2 (y2 - y1) (x2 - x1);
          headLength = lw * 3
      in ctx @
         [BeginPath,
          MoveTo x1 y1,
          LineTo (x2 - headLength * cos angle) (y2 - headLength * sin angle),
          Stroke,
          BeginPath,
          MoveTo x2 y2,
          LineTo (x2 - headLength * cos (angle - 1 / 2)) (y2 - headLength * sin (angle - 1 / 2)),
          LineTo (x2 - headLength * cos (angle + 1 / 2)) (y2 - headLength * sin (angle + 1 / 2)),
          ClosePath,
          SetFillStyleToStrokeStyle,
          Fill])"

section \<open>Properties of the viewport and example inputs\<close>

text \<open>The clamp bounds of a pan for a scale: with a canvas and a background, both
  coordinates lie between 0 and the larger of 0 and the background extent minus the
  viewport extent over the scale; without one of them nothing bounds the pan.\<close>

definition pan_within_bounds ::
    "HTMLCanvasElement option \<Rightarrow> HTMLImageElement option \<Rightarrow> real \<Rightarrow> point \<Rightarrow> bool" where
  "pan_within_bounds cv bg sc p =
     (case (cv, bg) of
        (Some c, Some b) \<Rightarrow>
          0 \<le> fst p \<and> fst p \<le> max 0 (img_width b - canvas_width c / sc) \<and>
          0 \<le> snd p \<and> snd p \<le> max 0 (img_height b - canvas_height c / sc)
      | _ \<Rightarrow> True)"

text \<open>The viewport invariant: the scale is between 1 and 4, and the pan is within the
  clamp bounds for that scale, the canvas and the background of the state.\<close>

definition scale_ok :: "real \<Rightarrow> bool" where
  "scale_ok sc = (1 \<le> sc \<and> sc \<le> 4)"

definition cdt_viewport_ok :: "CollaborativeDrawingTool \<Rightarrow> bool" where
  "cdt_viewport_ok st =
     (scale_ok (scale st) \<and>
      pan_within_bounds (current_canvas (containerRef st)) (backgroundImage st) (scale st)
        (panX st, panY st))"

definition rtm_viewport_ok :: "RealTimeMapApp \<Rightarrow> bool" where
  "rtm_viewport_ok st =
     (scale_ok (scale st) \<and>
      pan_within_bounds (current_canvas (canvasContainerRef st)) (bgImage st) (scale st) (pan st))"

text \<open>A 1000 x 800 canvas at the origin of the screen, a 2000 x 1600 background, and the
  two components in their initial state with that canvas mounted and that background
  loaded.\<close>

definition example_canvas :: HTMLCanvasElement where
  "example_canvas =
     \<lparr>canvas_width = 1000, canvas_height = 800,
      getBoundingClientRect =
        \<lparr>rect_left = 0, rect_top = 0, rect_width = 1000, rect_height = 800\<rparr>\<rparr>"

definition example_background :: HTMLImageElement where
  "example_background = \<lparr>img_width = 2000, img_height = 1600\<rparr>"

definition cdt_example :: CollaborativeDrawingTool where
  "cdt_example =
     \<lparr>st_userId = ''user-1'', st_userName = ''GuestLion'', st_lineWidth = 10,
      selectedEmoji = '':)'', fadeSetting = ''permanent'', scale = 1,
      isPanning = False, panStart = (0, 0), isDrawing = False,
      userColor = ''#ff0000'', activeTool = Arrow, drawActions = [],
      startPoint = (0, 0), backgroundImage = Some example_background,
      panX = 0, panY = 0, containerRef = Some (Container (Some example_canvas))\<rparr>"

definition rtm_example :: RealTimeMapApp where
  "rtm_example =
     \<lparr>st_userId = ''u1'', st_userName = ''Guest'', st_lineWidth = 10,
      selectedEmoji = '':)'', fadeSetting = ''permanent'', scale = 1,
      isPanning = False, panStart = (0, 0), isDrawing = False,
      userColour = ''#ef4444'', currentTool = Arrow, actions = [],
      canvasContainerRef = Some (Container (Some example_canvas)),
      pan = (0, 0), drawStart = (0, 0), bgImage = Some example_background,
      menuOpen = False, menuPos = (0, 0)\<rparr>"

definition example_mouse :: "real \<Rightarrow> real \<Rightarrow> bool \<Rightarrow> MouseEvent" where
  "example_mouse cx cy ctrl =
     \<lparr>ctrlKey = ctrl, metaKey = False, clientX = cx, clientY = cy, button = 0\<rparr>"

definition example_wheel :: "real \<Rightarrow> real \<Rightarrow> real \<Rightarrow> WheelEvent" where
  "example_wheel cx cy dy =
     \<lparr>ctrlKey = False, metaKey = False, clientX = cx, clientY = cy, button = 0, deltaY = dy\<rparr>"

definition example_action :: "jsnumber option \<Rightarrow> DrawAction" where
  "example_action ex =
     \<lparr>userId = ''u1'', userName = ''Guest'', color = ''#ef4444'', tool = Arrow,
      lineWidth = 10, start = (0, 0), endp = (0, 0), emoji = None, expireAt = ex\<rparr>"

text \<open>The first component after a Ctrl-drag from the screen point \<open>(0, 0)\<close> by
  \<open>(- 300, - 200)\<close>: a pointer-down with Ctrl held and one move.\<close>

definition cdt_panned_example :: CollaborativeDrawingTool where
  "cdt_panned_example =
     cdt_handleMouseMove (cdt_handleMouseDown cdt_example (example_mouse 0 0 True)) 1
       (example_mouse (- 300) (- 200) True)"

text \<open>Four pointer events: the primary button goes down without Ctrl, the middle button
  goes down with Ctrl held before any pointer-up, the pointer moves, and a button is
  released.\<close>

definition second_down_events :: "(real \<times> pointer_event) list" where
  "second_down_events =
     [(0, MouseDown (example_mouse 100 100 False)),
      (1, MouseDown ((example_mouse 100 100 True)\<lparr>button := 1\<rparr>)),
      (2, MouseMove (example_mouse 50 60 True)),
      (3, MouseUp (example_mouse 50 60 True))]"

text \<open>The two components in the middle of a drawing gesture, with the 10-second fade
  selected and one action in the list that expires at clock value 15000; the first has
  the pen selected.\<close>

definition cdt_drawing_example :: CollaborativeDrawingTool where
  "cdt_drawing_example =
     cdt_example\<lparr>isDrawing := True, fadeSetting := ''10s'', activeTool := Pen,
       drawActions := [example_action (Some (Finite 15000))]\<rparr>"

definition rtm_drawing_example :: RealTimeMapApp where
  "rtm_drawing_example =
     rtm_example\<lparr>isDrawing := True, fadeSetting := ''10s'',
       actions := [example_action (Some (Finite 15000))]\<rparr>"

section \<open>Properties of the action list\<close>

text \<open>The values of \<^verbatim>\<open>expireAt\<close> that the stroke recorder stores when the clock is not
  before the epoch: \<^verbatim>\<open>Infinity\<close>, or \<^verbatim>\<open>Date.now()\<close> plus a positive number of
  milliseconds.\<close>

definition recorded_expiry :: "jsnumber option \<Rightarrow> bool" where
  "recorded_expiry v =
     (case v of None \<Rightarrow> False | Some Infinity \<Rightarrow> True | Some (Finite t) \<Rightarrow> 0 < t)"

text \<open>The actions an event appends: what the action list holds after the event beyond
  its length before.\<close>

definition cdt_appended ::
    "CollaborativeDrawingTool \<Rightarrow> real \<times> pointer_event \<Rightarrow> DrawAction list" where
  "cdt_appended st ev = drop (length (drawActions st)) (drawActions (cdt_pointer st ev))"

definition rtm_appended :: "RealTimeMapApp \<Rightarrow> real \<times> pointer_event \<Rightarrow> DrawAction list" where
  "rtm_appended st ev = drop (length (actions st)) (actions (rtm_pointer st ev))"

section \<open>Theorems: pan clamp\<close>

lemmas example_defs =
  cdt_example_def rtm_example_def example_canvas_def example_background_def
  current_canvas_def

lemma cdt_clampPan_no_background:
  "backgroundImage st = None \<Longrightarrow> cdt_clampPan st px py sc = (px, py)"
  by (simp add: cdt_clampPan_def split: option.split)

lemma rtm_clampPan_no_background:
  "bgImage st = None \<Longrightarrow> rtm_clampPan st px py sc = (px, py)"
  by (simp add: rtm_clampPan_def split: option.split)

lemma cdt_clampPan_no_canvas:
  "current_canvas (containerRef st) = None \<Longrightarrow> cdt_clampPan st px py sc = (px, py)"
  by (simp add: cdt_clampPan_def)

lemma rtm_clampPan_no_canvas:
  "current_canvas (canvasContainerRef st) = None \<Longrightarrow> rtm_clampPan st px py sc = (px, py)"
  by (simp add: rtm_clampPan_def)

lemma cdt_clampPan_background:
  assumes "current_canvas (containerRef st) = Some cv" and "backgroundImage st = Some bg"
  shows "cdt_clampPan st px py sc =
           (min (max 0 px) (max 0 (img_width bg - canvas_width cv / sc)),
            min (max 0 py) (max 0 (img_height bg - canvas_height cv / sc)))"
  using assms by (simp add: cdt_clampPan_def Let_def min_def max_def)

lemma rtm_clampPan_background:
  assumes "current_canvas (canvasContainerRef st) = Some cv" and "bgImage st = Some bg"
  shows "rtm_clampPan st px py sc =
           (min (max 0 px) (max 0 (img_width bg - canvas_width cv / sc)),
            min (max 0 py) (max 0 (img_height bg - canvas_height cv / sc)))"
  using assms by (simp add: rtm_clampPan_def Let_def)

text \<open>
  C1. Without a background image \<^verbatim>\<open>clampPan\<close> returns the pan it is given, whatever the
  pan. With a canvas \<open>cv\<close> (the viewport) and a background \<open>bg\<close>, and a scale between 1
  and 4, it returns the pan clamped coordinate by coordinate into the interval from 0 to
  \<open>max 0 (bg extent - viewport extent / scale)\<close>. Both components.
\<close>

theorem clampPan_contract:
  "(backgroundImage cst = None \<longrightarrow> cdt_clampPan cst px py sc = (px, py)) \<and>
   (bgImage rst = None \<longrightarrow> rtm_clampPan rst px py sc = (px, py)) \<and>
   (1 \<le> sc \<and> sc \<le> 4 \<and> current_canvas (containerRef cst) = Some cv \<and>
    backgroundImage cst = Some bg \<longrightarrow>
      cdt_clampPan cst px py sc =
        (min (max 0 px) (max 0 (img_width bg - canvas_width cv / sc)),
         min (max 0 py) (max 0 (img_height bg - canvas_height cv / sc)))) \<and>
   (1 \<le> sc \<and> sc \<le> 4 \<and> current_canvas (canvasContainerRef rst) = Some cv' \<and>
    bgImage rst = Some bg' \<longrightarrow>
      rtm_clampPan rst px py sc =
        (min (max 0 px) (max 0 (img_width bg' - canvas_width cv' / sc)),
         min (max 0 py) (max 0 (img_height bg' - canvas_height cv' / sc))))"
  by (simp add: cdt_clampPan_no_background rtm_clampPan_no_background
        cdt_clampPan_background rtm_clampPan_background)

theorem clampPan_contract_witness:
  "backgroundImage (cdt_example\<lparr>backgroundImage := None\<rparr>) = None \<and>
   cdt_clampPan (cdt_example\<lparr>backgroundImage := None\<rparr>) 1700 (- 5) 2 = (1700, - 5) \<and>
   bgImage (rtm_example\<lparr>bgImage := None\<rparr>) = None \<and>
   rtm_clampPan (rtm_example\<lparr>bgImage := None\<rparr>) 1700 (- 5) 2 = (1700, - 5) \<and>
   (1::real) \<le> 2 \<and> (2::real) \<le> 4 \<and>
   current_canvas (containerRef cdt_example) = Some example_canvas \<and>
   backgroundImage cdt_example = Some example_background \<and>
   cdt_clampPan cdt_example 1700 (- 5) 2 = (1500, 0) \<and>
   current_canvas (canvasContainerRef rtm_example) = Some example_canvas \<and>
   bgImage rtm_example = Some example_background \<and>
   rtm_clampPan rtm_example 1700 (- 5) 2 = (1500, 0)"
  using clampPan_contract [of "cdt_example\<lparr>backgroundImage := None\<rparr>" 1700 "- 5" 2
          "rtm_example\<lparr>bgImage := None\<rparr>" example_canvas example_background
          example_canvas example_background]
        clampPan_contract [of cdt_example 1700 "- 5" 2 rtm_example
          example_canvas example_background example_canvas example_background]
  by (simp add: example_defs)

text \<open>
  C9. Clamping a clamped pan changes nothing: for every pan, every scale, every
  background (present or absent) and every viewport (present or absent), in both
  components. (At scale 0, which the viewport never has, the division of the model is
  not the one of JavaScript; the equation holds there too.)
\<close>

theorem clampPan_idempotent:
  "cdt_clampPan cst (fst (cdt_clampPan cst px py sc)) (snd (cdt_clampPan cst px py sc)) sc =
     cdt_clampPan cst px py sc \<and>
   rtm_clampPan rst (fst (rtm_clampPan rst px py sc)) (snd (rtm_clampPan rst px py sc)) sc =
     rtm_clampPan rst px py sc"
  by (simp add: cdt_clampPan_def rtm_clampPan_def Let_def split: option.split)

section \<open>Theorems: expiry sweeper\<close>

lemma cdt_fade_keep_iff:
  "cdt_fade_keep now a \<longleftrightarrow>
     expireAt a = None \<or> expireAt a = Some (Finite 0) \<or> expireAt a = Some Infinity \<or>
     (\<exists>t. expireAt a = Some (Finite t) \<and> now < t)"
  by (auto simp: cdt_fade_keep_def falsy_def js_less_def split: option.splits jsnumber.splits)

lemma rtm_fade_keep_iff:
  "rtm_fade_keep now a \<longleftrightarrow>
     expireAt a = None \<or> expireAt a = Some (Finite 0) \<or> expireAt a = Some Infinity \<or>
     (\<exists>t. expireAt a = Some (Finite t) \<and> now < t)"
  by (auto simp: rtm_fade_keep_def falsy_def js_less_def split: option.splits jsnumber.splits)

lemma fadeToMs_10s: "fadeToMs ''10s'' = Finite 10000"
  by (simp add: fadeToMs_def FADE_OPTIONS_def)

lemma parseFadeTime_10s: "parseFadeTime ''10s'' = Finite 10000"
  by (simp add: parseFadeTime_def)

lemma parseFadeTime_cases:
  "parseFadeTime v = Infinity \<or> (\<exists>ms. 0 < ms \<and> parseFadeTime v = Finite ms)"
  by (simp add: parseFadeTime_def)

lemma fadeToMs_cases:
  "fadeToMs v = Infinity \<or> (\<exists>ms. 0 < ms \<and> fadeToMs v = Finite ms)"
  by (simp add: fadeToMs_def FADE_OPTIONS_def)

lemma recorded_plus:
  assumes "0 \<le> T" "f = Infinity \<or> (\<exists>ms. 0 < ms \<and> f = Finite ms)"
  shows "recorded_expiry (Some (js_plus (Finite T) f))"
    and "recorded_expiry (Some (if f = Infinity then Infinity else js_plus (Finite T) f))"
  using assms by (auto simp: recorded_expiry_def)

text \<open>What each pointer event appends.\<close>

lemma cdt_pointer_appends:
  "drawActions (cdt_pointer st (T, ev)) = drawActions st @ cdt_appended st (T, ev)"
  by (cases ev)
    (simp_all add: cdt_appended_def cdt_handleMouseDown_def cdt_handleMouseMove_def
       cdt_handleMouseUp_def Let_def)

lemma rtm_pointer_appends:
  "actions (rtm_pointer st (T, ev)) = actions st @ rtm_appended st (T, ev)"
  by (cases ev)
    (simp_all add: rtm_appended_def rtm_handleMouseDown_def rtm_handleMouseMove_def
       rtm_handleMouseUp_def pushAction_def Let_def)

lemma cdt_appended_expiry:
  "a \<in> set (cdt_appended st (T, ev)) \<Longrightarrow>
   expireAt a = Some (if parseFadeTime (fadeSetting st) = Infinity then Infinity
                      else js_plus (Finite T) (parseFadeTime (fadeSetting st)))"
  by (cases ev)
    (auto simp: cdt_appended_def cdt_handleMouseDown_def cdt_handleMouseMove_def
       cdt_handleMouseUp_def Let_def split: if_splits)

lemma rtm_appended_expiry:
  "a \<in> set (rtm_appended st (T, ev)) \<Longrightarrow>
   expireAt a = Some (js_plus (Finite T) (fadeToMs (fadeSetting st)))"
  by (cases ev)
    (auto simp: rtm_appended_def rtm_handleMouseDown_def rtm_handleMouseMove_def
       rtm_handleMouseUp_def pushAction_def Let_def split: if_splits)

lemma cdt_appended_length:
  assumes "\<not> isPanning st" "isDrawing st"
  shows "activeTool st = Pen \<Longrightarrow> length (cdt_appended st (T, MouseMove e)) = 1"
    and "activeTool st \<noteq> Pen \<Longrightarrow> length (cdt_appended st (T, MouseUp e)) = 1"
  using assms
  by (cases "activeTool st";
      simp add: cdt_appended_def cdt_handleMouseMove_def cdt_handleMouseUp_def Let_def)+

lemma rtm_appended_length:
  assumes "\<not> isPanning st" "isDrawing st"
  shows "currentTool st = Pen \<Longrightarrow> length (rtm_appended st (T, MouseMove e)) = 1"
    and "length (rtm_appended st (T, MouseUp e)) = 1"
  using assms
  by (simp_all add: rtm_appended_def rtm_handleMouseMove_def rtm_handleMouseUp_def
        pushAction_def Let_def)

lemma recorded_keep:
  assumes "recorded_expiry (expireAt a)"
  shows "cdt_fade_keep now a \<longleftrightarrow> expireAt a = Some Infinity \<or> js_less now (expireAt a)"
    and "rtm_fade_keep now a \<longleftrightarrow> expireAt a = Some Infinity \<or> js_less now (expireAt a)"
    and "\<not> cdt_fade_keep now a \<longleftrightarrow> (\<exists>t. expireAt a = Some (Finite t) \<and> t \<le> now)"
    and "\<not> rtm_fade_keep now a \<longleftrightarrow> (\<exists>t. expireAt a = Some (Finite t) \<and> t \<le> now)"
  using assms
  by (auto simp: recorded_expiry_def cdt_fade_keep_def rtm_fade_keep_def falsy_def js_less_def
        split: option.splits jsnumber.splits)


lemma cdt_appended_recorded:
  "0 \<le> T \<Longrightarrow> a \<in> set (cdt_appended st (T, ev)) \<Longrightarrow> recorded_expiry (expireAt a)"
  using recorded_plus(2) [OF _ parseFadeTime_cases, of T "fadeSetting st"]
  by (simp add: cdt_appended_expiry)

lemma rtm_appended_recorded:
  "0 \<le> T \<Longrightarrow> a \<in> set (rtm_appended st (T, ev)) \<Longrightarrow> recorded_expiry (expireAt a)"
  using recorded_plus(1) [OF _ fadeToMs_cases, of T "fadeSetting st"]
  by (simp add: rtm_appended_expiry)

lemma cdt_pointer_recorded:
  assumes "0 \<le> T" "\<forall>a \<in> set (drawActions st). recorded_expiry (expireAt a)"
  shows "\<forall>a \<in> set (drawActions (cdt_pointer st (T, ev))). recorded_expiry (expireAt a)"
  using assms cdt_appended_recorded [of T _ st ev]
  by (auto simp: cdt_pointer_appends)

lemma rtm_pointer_recorded:
  assumes "0 \<le> T" "\<forall>a \<in> set (actions st). recorded_expiry (expireAt a)"
  shows "\<forall>a \<in> set (actions (rtm_pointer st (T, ev))). recorded_expiry (expireAt a)"
  using assms rtm_appended_recorded [of T _ st ev]
  by (auto simp: rtm_pointer_appends)

lemma set_slice: "set (slice xs b e) \<subseteq> set xs"
  by (auto simp: slice_def Let_def dest: in_set_takeD in_set_dropD)

lemma cdt_removal_recorded:
  assumes "\<forall>a \<in> set (drawActions st). recorded_expiry (expireAt a)"
  shows "\<forall>a \<in> set (drawActions (cdt_handleKeyDown st ke)). recorded_expiry (expireAt a)"
    and "\<forall>a \<in> set (drawActions (cdt_fade_tick st now)). recorded_expiry (expireAt a)"
  using assms set_slice [of "drawActions st" 0 "- 1"]
  by (auto simp: cdt_handleKeyDown_def cdt_fade_tick_def Let_def)

lemma rtm_removal_recorded:
  assumes "\<forall>a \<in> set (actions st). recorded_expiry (expireAt a)"
  shows "\<forall>a \<in> set (actions (rtm_undo_handler st ke)). recorded_expiry (expireAt a)"
    and "\<forall>a \<in> set (actions (rtm_fade_tick st now)). recorded_expiry (expireAt a)"
  using assms set_slice [of "actions st" 0 "- 1"]
  by (auto simp: rtm_undo_handler_def rtm_fade_tick_def Let_def)

lemma cdt_ten_seconds:
  assumes "0 \<le> T" "fadeSetting st = ''10s''" "a \<in> set (cdt_appended st (T, ev))"
  shows "a \<in> set (drawActions (cdt_fade_tick (cdt_pointer st (T, ev)) (T + 9999)))"
    and "a \<notin> set (drawActions (cdt_fade_tick (cdt_pointer st (T, ev)) (T + 10001)))"
  using assms cdt_appended_expiry [of a st T ev]
  by (simp_all add: cdt_fade_tick_def cdt_pointer_appends parseFadeTime_10s cdt_fade_keep_iff)

lemma rtm_ten_seconds:
  assumes "0 \<le> T" "fadeSetting st = ''10s''" "a \<in> set (rtm_appended st (T, ev))"
  shows "a \<in> set (actions (rtm_fade_tick (rtm_pointer st (T, ev)) (T + 9999)))"
    and "a \<notin> set (actions (rtm_fade_tick (rtm_pointer st (T, ev)) (T + 10001)))"
  using assms rtm_appended_expiry [of a st T ev]
  by (simp_all add: rtm_fade_tick_def rtm_pointer_appends fadeToMs_10s rtm_fade_keep_iff)

text \<open>
  C6. A tick of the sweeper at clock value \<open>now\<close> filters the action list. The action list
  holds only actions with an \<^verbatim>\<open>expireAt\<close> the stroke recorder stores: the list starts
  empty, every pointer event at a clock value \<open>T \<ge> 0\<close> appends only such actions, and the
  undo key and the tick only remove actions. Such an action is kept if and only if its
  \<^verbatim>\<open>expireAt\<close> is infinity or \<open>now < expireAt\<close> (strict comparison), and dropped if and
  only if \<open>expireAt \<le> now\<close>. With the 10-second fade selected, every action a pointer
  event appends at a clock value \<open>T \<ge> 0\<close> (a pen segment on a move, any other tool on the
  pointer-up; in part_001 also the pen on the pointer-up) is present after a tick at
  \<open>T + 9999\<close> and absent after a tick at \<open>T + 10001\<close>; in the middle of a drawing gesture
  those events append exactly one action. Both components.
\<close>

theorem fade_sweep_strict:
  "drawActions (cdt_fade_tick cst now) = filter (cdt_fade_keep now) (drawActions cst) \<and>
   actions (rtm_fade_tick rst now) = filter (rtm_fade_keep now) (actions rst) \<and>
   (recorded_expiry (expireAt a) \<longrightarrow>
      (cdt_fade_keep now a \<longleftrightarrow> expireAt a = Some Infinity \<or> js_less now (expireAt a)) \<and>
      (rtm_fade_keep now a \<longleftrightarrow> expireAt a = Some Infinity \<or> js_less now (expireAt a)) \<and>
      (\<not> cdt_fade_keep now a \<longleftrightarrow> (\<exists>t. expireAt a = Some (Finite t) \<and> t \<le> now)) \<and>
      (\<not> rtm_fade_keep now a \<longleftrightarrow> (\<exists>t. expireAt a = Some (Finite t) \<and> t \<le> now))) \<and>
   ((\<forall>x \<in> set (drawActions cst). recorded_expiry (expireAt x)) \<longrightarrow>
      (0 \<le> T \<longrightarrow>
         (\<forall>x \<in> set (drawActions (cdt_pointer cst (T, ev))). recorded_expiry (expireAt x))) \<and>
      (\<forall>x \<in> set (drawActions (cdt_handleKeyDown cst ke)). recorded_expiry (expireAt x)) \<and>
      (\<forall>x \<in> set (drawActions (cdt_fade_tick cst now)). recorded_expiry (expireAt x))) \<and>
   ((\<forall>x \<in> set (actions rst). recorded_expiry (expireAt x)) \<longrightarrow>
      (0 \<le> T \<longrightarrow>
         (\<forall>x \<in> set (actions (rtm_pointer rst (T, ev))). recorded_expiry (expireAt x))) \<and>
      (\<forall>x \<in> set (actions (rtm_undo_handler rst ke)). recorded_expiry (expireAt x)) \<and>
      (\<forall>x \<in> set (actions (rtm_fade_tick rst now)). recorded_expiry (expireAt x))) \<and>
   drawActions (cdt_pointer cst (T, ev)) = drawActions cst @ cdt_appended cst (T, ev) \<and>
   actions (rtm_pointer rst (T, ev)) = actions rst @ rtm_appended rst (T, ev) \<and>
   (\<not> isPanning cst \<and> isDrawing cst \<longrightarrow>
      (activeTool cst = Pen \<longrightarrow> length (cdt_appended cst (T, MouseMove e)) = 1) \<and>
      (activeTool cst \<noteq> Pen \<longrightarrow> length (cdt_appended cst (T, MouseUp e)) = 1)) \<and>
   (\<not> isPanning rst \<and> isDrawing rst \<longrightarrow>
      (currentTool rst = Pen \<longrightarrow> length (rtm_appended rst (T, MouseMove e)) = 1) \<and>
      length (rtm_appended rst (T, MouseUp e)) = 1) \<and>
   (0 \<le> T \<and> fadeSetting cst = ''10s'' \<longrightarrow>
      (\<forall>x \<in> set (cdt_appended cst (T, ev)).
         x \<in> set (drawActions (cdt_fade_tick (cdt_pointer cst (T, ev)) (T + 9999))) \<and>
         x \<notin> set (drawActions (cdt_fade_tick (cdt_pointer cst (T, ev)) (T + 10001))))) \<and>
   (0 \<le> T \<and> fadeSetting rst = ''10s'' \<longrightarrow>
      (\<forall>x \<in> set (rtm_appended rst (T, ev)).
         x \<in> set (actions (rtm_fade_tick (rtm_pointer rst (T, ev)) (T + 9999))) \<and>
         x \<notin> set (actions (rtm_fade_tick (rtm_pointer rst (T, ev)) (T + 10001)))))"
proof -
  have t: "drawActions (cdt_fade_tick cst now) = filter (cdt_fade_keep now) (drawActions cst)"
    "actions (rtm_fade_tick rst now) = filter (rtm_fade_keep now) (actions rst)"
    by (simp_all add: cdt_fade_tick_def rtm_fade_tick_def)
  have k: "recorded_expiry (expireAt a) \<longrightarrow>
      (cdt_fade_keep now a \<longleftrightarrow> expireAt a = Some Infinity \<or> js_less now (expireAt a)) \<and>
      (rtm_fade_keep now a \<longleftrightarrow> expireAt a = Some Infinity \<or> js_less now (expireAt a)) \<and>
      (\<not> cdt_fade_keep now a \<longleftrightarrow> (\<exists>t. expireAt a = Some (Finite t) \<and> t \<le> now)) \<and>
      (\<not> rtm_fade_keep now a \<longleftrightarrow> (\<exists>t. expireAt a = Some (Finite t) \<and> t \<le> now))"
    using recorded_keep [of a now] by blast
  have c: "(\<forall>x \<in> set (drawActions cst). recorded_expiry (expireAt x)) \<longrightarrow>
      (0 \<le> T \<longrightarrow>
         (\<forall>x \<in> set (drawActions (cdt_pointer cst (T, ev))). recorded_expiry (expireAt x))) \<and>
      (\<forall>x \<in> set (drawActions (cdt_handleKeyDown cst ke)). recorded_expiry (expireAt x)) \<and>
      (\<forall>x \<in> set (drawActions (cdt_fade_tick cst now)). recorded_expiry (expireAt x))"
    using cdt_pointer_recorded [of T cst ev] cdt_removal_recorded(1) [of cst ke]
      cdt_removal_recorded(2) [of cst now]
    by blast
  have r: "(\<forall>x \<in> set (actions rst). recorded_expiry (expireAt x)) \<longrightarrow>
      (0 \<le> T \<longrightarrow>
         (\<forall>x \<in> set (actions (rtm_pointer rst (T, ev))). recorded_expiry (expireAt x))) \<and>
      (\<forall>x \<in> set (actions (rtm_undo_handler rst ke)). recorded_expiry (expireAt x)) \<and>
      (\<forall>x \<in> set (actions (rtm_fade_tick rst now)). recorded_expiry (expireAt x))"
    using rtm_pointer_recorded [of T rst ev] rtm_removal_recorded(1) [of rst ke]
      rtm_removal_recorded(2) [of rst now]
    by blast
  have l: "\<not> isPanning cst \<and> isDrawing cst \<longrightarrow>
      (activeTool cst = Pen \<longrightarrow> length (cdt_appended cst (T, MouseMove e)) = 1) \<and>
      (activeTool cst \<noteq> Pen \<longrightarrow> length (cdt_appended cst (T, MouseUp e)) = 1)"
    "\<not> isPanning rst \<and> isDrawing rst \<longrightarrow>
      (currentTool rst = Pen \<longrightarrow> length (rtm_appended rst (T, MouseMove e)) = 1) \<and>
      length (rtm_appended rst (T, MouseUp e)) = 1"
    using cdt_appended_length [of cst T e] rtm_appended_length [of rst T e] by blast+
  have s: "0 \<le> T \<and> fadeSetting cst = ''10s'' \<longrightarrow>
      (\<forall>x \<in> set (cdt_appended cst (T, ev)).
         x \<in> set (drawActions (cdt_fade_tick (cdt_pointer cst (T, ev)) (T + 9999))) \<and>
         x \<notin> set (drawActions (cdt_fade_tick (cdt_pointer cst (T, ev)) (T + 10001))))"
    "0 \<le> T \<and> fadeSetting rst = ''10s'' \<longrightarrow>
      (\<forall>x \<in> set (rtm_appended rst (T, ev)).
         x \<in> set (actions (rtm_fade_tick (rtm_pointer rst (T, ev)) (T + 9999))) \<and>
         x \<notin> set (actions (rtm_fade_tick (rtm_pointer rst (T, ev)) (T + 10001))))"
    using cdt_ten_seconds [of T cst _ ev] rtm_ten_seconds [of T rst _ ev] by blast+
  from t k c r cdt_pointer_appends [of cst T ev] rtm_pointer_appends [of rst T ev] l s
  show ?thesis
    by (intro conjI)
qed

theorem fade_sweep_strict_witness:
  "recorded_expiry (expireAt (example_action (Some (Finite 15000)))) \<and>
   cdt_fade_keep 14999 (example_action (Some (Finite 15000))) \<and>
   \<not> cdt_fade_keep 15000 (example_action (Some (Finite 15000))) \<and>
   rtm_fade_keep 14999 (example_action (Some (Finite 15000))) \<and>
   \<not> rtm_fade_keep 15000 (example_action (Some (Finite 15000))) \<and>
   (0::real) \<le> 5000 \<and>
   fadeSetting cdt_drawing_example = ''10s'' \<and>
   \<not> isPanning cdt_drawing_example \<and> isDrawing cdt_drawing_example \<and>
   activeTool cdt_drawing_example = Pen \<and>
   drawActions cdt_drawing_example = [example_action (Some (Finite 15000))] \<and>
   length (cdt_appended cdt_drawing_example (5000, MouseMove (example_mouse 30 40 False))) = 1 \<and>
   length (drawActions (cdt_fade_tick
     (cdt_pointer cdt_drawing_example (5000, MouseMove (example_mouse 30 40 False)))
     (5000 + 9999))) = 2 \<and>
   drawActions (cdt_fade_tick
     (cdt_pointer cdt_drawing_example (5000, MouseMove (example_mouse 30 40 False)))
     (5000 + 10001)) = [] \<and>
   fadeSetting rtm_drawing_example = ''10s'' \<and>
   \<not> isPanning rtm_drawing_example \<and> isDrawing rtm_drawing_example \<and>
   actions rtm_drawing_example = [example_action (Some (Finite 15000))] \<and>
   length (rtm_appended rtm_drawing_example (5000, MouseUp (example_mouse 30 40 False))) = 1 \<and>
   length (actions (rtm_fade_tick
     (rtm_pointer rtm_drawing_example (5000, MouseUp (example_mouse 30 40 False)))
     (5000 + 9999))) = 2 \<and>
   actions (rtm_fade_tick
     (rtm_pointer rtm_drawing_example (5000, MouseUp (example_mouse 30 40 False)))
     (5000 + 10001)) = []"
proof -
  have h: "recorded_expiry (expireAt (example_action (Some (Finite 15000))))"
    "fadeSetting cdt_drawing_example = ''10s''"
    "\<not> isPanning cdt_drawing_example" "isDrawing cdt_drawing_example"
    "activeTool cdt_drawing_example = Pen"
    "drawActions cdt_drawing_example = [example_action (Some (Finite 15000))]"
    "fadeSetting rtm_drawing_example = ''10s''"
    "\<not> isPanning rtm_drawing_example" "isDrawing rtm_drawing_example"
    "actions rtm_drawing_example = [example_action (Some (Finite 15000))]"
    by (simp_all add: cdt_drawing_example_def rtm_drawing_example_def cdt_example_def
          rtm_example_def example_action_def recorded_expiry_def)
  have c: "drawActions (cdt_handleMouseMove cdt_drawing_example 5000 (example_mouse 30 40 False))
           = [example_action (Some (Finite 15000)),
              \<lparr>userId = ''user-1'', userName = ''GuestLion'', color = ''#ff0000'', tool = Pen,
               lineWidth = 10, start = (0, 0), endp = (30, 40), emoji = None,
               expireAt = Some (Finite 15000)\<rparr>]"
    by (simp add: cdt_handleMouseMove_def Let_def h parseFadeTime_10s)
      (simp add: cdt_drawing_example_def example_defs cdt_screenToWorld_def example_mouse_def)
  have r: "actions (rtm_handleMouseUp rtm_drawing_example 5000 (example_mouse 30 40 False))
           = [example_action (Some (Finite 15000)),
              \<lparr>userId = ''u1'', userName = ''Guest'', color = ''#ef4444'', tool = Arrow,
               lineWidth = 10, start = (0, 0), endp = (30, 40), emoji = Some '':)'',
               expireAt = Some (Finite 15000)\<rparr>]"
    by (simp add: rtm_handleMouseUp_def pushAction_def Let_def h fadeToMs_10s)
      (simp add: rtm_drawing_example_def example_defs rtm_screenToWorld_def example_mouse_def)
  have k: "cdt_fade_keep 14999 (example_action (Some (Finite 15000)))"
    "\<not> cdt_fade_keep 15000 (example_action (Some (Finite 15000)))"
    "rtm_fade_keep 14999 (example_action (Some (Finite 15000)))"
    "\<not> rtm_fade_keep 15000 (example_action (Some (Finite 15000)))"
    by (simp_all add: cdt_fade_keep_def rtm_fade_keep_def falsy_def js_less_def
          example_action_def)
  have a: "length (cdt_appended cdt_drawing_example
             (5000, MouseMove (example_mouse 30 40 False))) = 1"
    "length (rtm_appended rtm_drawing_example
             (5000, MouseUp (example_mouse 30 40 False))) = 1"
    by (simp_all add: cdt_appended_def rtm_appended_def c r h)
  have t: "length (drawActions (cdt_fade_tick
       (cdt_pointer cdt_drawing_example (5000, MouseMove (example_mouse 30 40 False)))
       (5000 + 9999))) = 2"
    "drawActions (cdt_fade_tick
       (cdt_pointer cdt_drawing_example (5000, MouseMove (example_mouse 30 40 False)))
       (5000 + 10001)) = []"
    "length (actions (rtm_fade_tick
       (rtm_pointer rtm_drawing_example (5000, MouseUp (example_mouse 30 40 False)))
       (5000 + 9999))) = 2"
    "actions (rtm_fade_tick
       (rtm_pointer rtm_drawing_example (5000, MouseUp (example_mouse 30 40 False)))
       (5000 + 10001)) = []"
    by (simp_all add: cdt_fade_tick_def rtm_fade_tick_def c r cdt_fade_keep_def
          rtm_fade_keep_def falsy_def js_less_def example_action_def)
  have all: "\<forall>x \<in> set (drawActions cdt_drawing_example). recorded_expiry (expireAt x)"
    "\<forall>x \<in> set (actions rtm_drawing_example). recorded_expiry (expireAt x)"
    using h(1) by (simp_all add: h)
  show ?thesis
    using fade_sweep_strict [of cdt_drawing_example 14999 rtm_drawing_example
            "example_action (Some (Finite 15000))" 5000 "MouseMove (example_mouse 30 40 False)"
            "\<lparr>ctrlKey = False, metaKey = False, key = ''a''\<rparr>" "example_mouse 30 40 False"]
          h k a t all
    by simp
qed

lemma cdt_ticks_keep_absent:
  "expireAt a = None \<Longrightarrow> a \<in> set (drawActions st) \<Longrightarrow>
   a \<in> set (drawActions (foldl cdt_fade_tick st ticks))"
  by (induction ticks arbitrary: st) (simp_all add: cdt_fade_tick_def cdt_fade_keep_iff)

lemma rtm_ticks_keep_absent:
  "expireAt a = None \<Longrightarrow> a \<in> set (actions st) \<Longrightarrow>
   a \<in> set (actions (foldl rtm_fade_tick st ticks))"
  by (induction ticks arbitrary: st) (simp_all add: rtm_fade_tick_def rtm_fade_keep_iff)

text \<open>
  C10. An action whose \<^verbatim>\<open>expireAt\<close> is absent passes the filter of every tick, exactly
  as the same action with \<^verbatim>\<open>expireAt\<close> infinity does, and stays in the action list
  through any sequence of ticks. Both components.
\<close>

theorem absent_expireAt_kept:
  "expireAt a = None \<Longrightarrow>
   cdt_fade_keep now a \<and> rtm_fade_keep now a \<and>
   cdt_fade_keep now a = cdt_fade_keep now (a\<lparr>expireAt := Some Infinity\<rparr>) \<and>
   rtm_fade_keep now a = rtm_fade_keep now (a\<lparr>expireAt := Some Infinity\<rparr>) \<and>
   (a \<in> set (drawActions cst) \<longrightarrow> a \<in> set (drawActions (foldl cdt_fade_tick cst ticks))) \<and>
   (a \<in> set (actions rst) \<longrightarrow> a \<in> set (actions (foldl rtm_fade_tick rst ticks)))"
  by (simp add: cdt_ticks_keep_absent rtm_ticks_keep_absent cdt_fade_keep_iff rtm_fade_keep_iff)

theorem absent_expireAt_kept_witness:
  "expireAt (example_action None) = None \<and>
   example_action None \<in> set (drawActions (cdt_example\<lparr>drawActions := [example_action None]\<rparr>)) \<and>
   example_action None \<in>
     set (drawActions (foldl cdt_fade_tick (cdt_example\<lparr>drawActions := [example_action None]\<rparr>)
                         [2000, 4000, 6000])) \<and>
   example_action None \<in> set (actions (rtm_example\<lparr>actions := [example_action None]\<rparr>)) \<and>
   example_action None \<in>
     set (actions (foldl rtm_fade_tick (rtm_example\<lparr>actions := [example_action None]\<rparr>)
                     [2000, 4000, 6000]))"
  using absent_expireAt_kept [of "example_action None" 2000
          "cdt_example\<lparr>drawActions := [example_action None]\<rparr>" "[2000, 4000, 6000]"
          "rtm_example\<lparr>actions := [example_action None]\<rparr>"]
  by (simp add: example_action_def)

section \<open>Theorems: undo\<close>

lemma slice_butlast: "slice xs 0 (- 1) = butlast xs"
proof -
  have "nat (max (int (length xs) - 1) 0) = length xs - 1"
    by arith
  then show ?thesis
    by (simp add: slice_def Let_def butlast_conv_take)
qed

lemma toLowerCase_z: "toLowerCase ''z'' = ''z''" "toLowerCase ''Z'' = ''z''"
  by code_simp+

text \<open>
  C7. On Backspace, and on Ctrl+Z or Cmd+Z (the key \<^verbatim>\<open>z\<close> in either case), the key
  handler replaces the action list by the list without its last element; after the
  actions A, B, C were appended to any list, one undo leaves that list followed by A, B.
  Both components.
\<close>

theorem undo_removes_last:
  "key e = ''Backspace'' \<or> ((ctrlKey e \<or> metaKey e) \<and> (key e = ''z'' \<or> key e = ''Z'')) \<Longrightarrow>
   drawActions (cdt_handleKeyDown cst e) = butlast (drawActions cst) \<and>
   actions (rtm_undo_handler rst e) = butlast (actions rst) \<and>
   (drawActions cst = xs @ [A, B, C] \<longrightarrow> drawActions (cdt_handleKeyDown cst e) = xs @ [A, B]) \<and>
   (actions rst = xs @ [A, B, C] \<longrightarrow> actions (rtm_undo_handler rst e) = xs @ [A, B])"
  by (auto simp: cdt_handleKeyDown_def rtm_undo_handler_def slice_butlast toLowerCase_z
        butlast_append)

theorem undo_removes_last_witness:
  "(key \<lparr>ctrlKey = True, metaKey = False, key = ''Z''\<rparr> = ''Backspace'' \<or>
    ((ctrlKey \<lparr>ctrlKey = True, metaKey = False, key = ''Z''\<rparr> \<or>
      metaKey \<lparr>ctrlKey = True, metaKey = False, key = ''Z''\<rparr>) \<and>
     (key \<lparr>ctrlKey = True, metaKey = False, key = ''Z''\<rparr> = ''z'' \<or>
      key \<lparr>ctrlKey = True, metaKey = False, key = ''Z''\<rparr> = ''Z''))) \<and>
   drawActions (cdt_example\<lparr>drawActions :=
       [] @ [example_action None, example_action (Some Infinity), example_action (Some (Finite 7))]\<rparr>) =
     [] @ [example_action None, example_action (Some Infinity), example_action (Some (Finite 7))] \<and>
   drawActions (cdt_handleKeyDown (cdt_example\<lparr>drawActions :=
       [] @ [example_action None, example_action (Some Infinity), example_action (Some (Finite 7))]\<rparr>)
       \<lparr>ctrlKey = True, metaKey = False, key = ''Z''\<rparr>) =
     [example_action None, example_action (Some Infinity)] \<and>
   actions (rtm_undo_handler (rtm_example\<lparr>actions :=
       [] @ [example_action None, example_action (Some Infinity), example_action (Some (Finite 7))]\<rparr>)
       \<lparr>ctrlKey = True, metaKey = False, key = ''Z''\<rparr>) =
     [example_action None, example_action (Some Infinity)]"
  using undo_removes_last [of "\<lparr>ctrlKey = True, metaKey = False, key = ''Z''\<rparr>"
          "cdt_example\<lparr>drawActions :=
             [] @ [example_action None, example_action (Some Infinity), example_action (Some (Finite 7))]\<rparr>"
          "rtm_example\<lparr>actions :=
             [] @ [example_action None, example_action (Some Infinity), example_action (Some (Finite 7))]\<rparr>"
          "[]" "example_action None" "example_action (Some Infinity)" "example_action (Some (Finite 7))"]
  by simp

section \<open>Theorems: coordinate transform\<close>

lemma paint_transform_point:
  "transform_point (paint_transform pn sc) w = (sc * fst w - fst pn * sc, sc * snd w - snd pn * sc)"
  by (simp add: paint_transform_def transform_point_def ctx_scale_def ctx_translate_def
        identity_matrix_def)

lemma cdt_screenToWorld_canvas:
  "current_canvas (containerRef st) = Some cv \<Longrightarrow>
   cdt_screenToWorld st sx sy =
     ((sx - rect_left (getBoundingClientRect cv)) / scale st + panX st,
      (sy - rect_top (getBoundingClientRect cv)) / scale st + panY st)"
  by (auto simp: cdt_screenToWorld_def current_canvas_def Let_def split: option.splits)

lemma rtm_screenToWorld_canvas:
  "current_canvas (canvasContainerRef st) = Some cv \<Longrightarrow>
   rtm_screenToWorld st sx sy =
     ((sx - rect_left (getBoundingClientRect cv)) / scale st + fst (pan st),
      (sy - rect_top (getBoundingClientRect cv)) / scale st + snd (pan st))"
  by (simp add: rtm_screenToWorld_def Let_def)

text \<open>
  The round trip in part_001: with a mounted canvas and a scale between 1 and 4, the
  screen position at which the paint effect draws the world point \<^verbatim>\<open>screenToWorld(p)\<close> is
  \<open>p\<close>, and \<^verbatim>\<open>screenToWorld\<close> of the screen position of a world point is that world point.
\<close>

lemma rtm_transform_round_trip:
  assumes "1 \<le> scale rst" "scale rst \<le> 4" "current_canvas (canvasContainerRef rst) = Some cv"
  shows "rtm_worldToScreen rst (rtm_screenToWorld rst sx sy) = Some (sx, sy)"
    and "\<exists>s. rtm_worldToScreen rst w = Some s \<and> rtm_screenToWorld rst (fst s) (snd s) = w"
  using assms
  by (auto simp: rtm_worldToScreen_def rtm_screenToWorld_canvas paint_transform_point
        canvas_to_client_def field_simps)

lemma cdt_panned_example_eq:
  "cdt_panned_example = cdt_example\<lparr>isPanning := True, panStart := (- 300, - 200),
     panX := 300, panY := 200\<rparr>"
  by (simp add: cdt_panned_example_def cdt_handleMouseDown_def cdt_handleMouseMove_def Let_def
        example_mouse_def cdt_clampPan_def example_defs)

text \<open>
  C4 at a concrete input, for part_000: after a Ctrl-drag by \<open>(- 300, - 200)\<close> the scale is
  1 and the pan is \<open>(300, 200)\<close>; \<^verbatim>\<open>screenToWorld\<close> maps the screen point \<open>(100, 60)\<close> to the
  world point \<open>(400, 260)\<close>, and the paint effect, which applies neither the translation
  nor the scaling, draws that world point at the screen point \<open>(400, 260)\<close>, not at
  \<open>(100, 60)\<close>.
\<close>

theorem cdt_paint_ignores_viewport:
  "scale cdt_panned_example = 1 \<and>
   panX cdt_panned_example = 300 \<and> panY cdt_panned_example = 200 \<and>
   cdt_screenToWorld cdt_panned_example 100 60 = (400, 260) \<and>
   cdt_worldToScreen cdt_panned_example (cdt_screenToWorld cdt_panned_example 100 60) =
     Some (400, 260)"
  by (simp add: cdt_panned_example_eq cdt_screenToWorld_def cdt_worldToScreen_def
        cdt_paint_transform_def identity_matrix_def transform_point_def canvas_to_client_def
        example_defs)

section \<open>Theorems: zoom at the pointer\<close>

lemma cdt_wheel_scale:
  assumes "1 \<le> (s::real)" "s \<le> 4"
  shows "(if dy < (0::real)
          then (let n = s * (11 / 10) in if n > 4 then 4 else n)
          else (let n = s / (11 / 10) in if n < 1 then 1 else n)) =
         min (max 1 (s * (if dy < 0 then 11 / 10 else 10 / 11))) 4"
  using assms by (auto simp: Let_def min_def max_def)

lemma cdt_handleWheel_canvas:
  assumes "1 \<le> scale st" "scale st \<le> 4" "current_canvas (containerRef st) = Some cv"
  shows "cdt_handleWheel st e =
     (let newScale = min (max 1 (scale st * (if deltaY e < 0 then 11 / 10 else 10 / 11))) 4;
          w = cdt_screenToWorld st (clientX e) (clientY e);
          clamped = cdt_clampPan st
            (fst w - (clientX e - rect_left (getBoundingClientRect cv)) / newScale)
            (snd w - (clientY e - rect_top (getBoundingClientRect cv)) / newScale) newScale
      in st\<lparr>scale := newScale, panX := fst clamped, panY := snd clamped\<rparr>)"
  using assms cdt_wheel_scale [of "scale st" "deltaY e"]
  by (simp add: cdt_handleWheel_def cdt_screenToWorld_canvas Let_def)

lemma rtm_handleWheel_canvas:
  assumes "current_canvas (canvasContainerRef st) = Some cv"
  shows "rtm_handleWheel st e =
     (let newScale = min (max 1 (scale st * (if deltaY e < 0 then 11 / 10 else 10 / 11))) 4;
          w = rtm_screenToWorld st (clientX e) (clientY e)
      in st\<lparr>scale := newScale,
             pan := rtm_clampPan st
               (fst w - (clientX e - rect_left (getBoundingClientRect cv)) / newScale)
               (snd w - (clientY e - rect_top (getBoundingClientRect cv)) / newScale) newScale\<rparr>)"
  using assms
  by (simp add: rtm_handleWheel_def rtm_screenToWorld_canvas Let_def)

lemma clamp_nearest:
  fixes c q m :: real
  assumes "0 \<le> q" "q \<le> max 0 m"
  shows "\<bar>min (max 0 c) (max 0 m) - c\<bar> \<le> \<bar>q - c\<bar>"
  using assms by (auto simp: min_def max_def abs_if)

lemma cdt_clampPan_within:
  "pan_within_bounds (current_canvas (containerRef st)) (backgroundImage st) sc
     (cdt_clampPan st px py sc)"
  by (auto simp: pan_within_bounds_def cdt_clampPan_background split: option.splits)

lemma rtm_clampPan_within:
  "pan_within_bounds (current_canvas (canvasContainerRef st)) (bgImage st) sc
     (rtm_clampPan st px py sc)"
  by (auto simp: pan_within_bounds_def rtm_clampPan_background split: option.splits)

lemma cdt_clampPan_nearest:
  assumes "pan_within_bounds (current_canvas (containerRef st)) (backgroundImage st) sc q"
  shows "\<bar>fst (cdt_clampPan st px py sc) - px\<bar> \<le> \<bar>fst q - px\<bar> \<and>
         \<bar>snd (cdt_clampPan st px py sc) - py\<bar> \<le> \<bar>snd q - py\<bar>"
proof (cases "current_canvas (containerRef st)")
  case None
  then show ?thesis by (simp add: cdt_clampPan_def)
next
  case (Some cv)
  show ?thesis
  proof (cases "backgroundImage st")
    case None
    then show ?thesis by (simp add: cdt_clampPan_no_background)
  next
    case (Some bg)
    with \<open>current_canvas (containerRef st) = Some cv\<close> assms show ?thesis
      by (simp add: cdt_clampPan_background pan_within_bounds_def clamp_nearest)
  qed
qed

lemma rtm_clampPan_nearest:
  assumes "pan_within_bounds (current_canvas (canvasContainerRef st)) (bgImage st) sc q"
  shows "\<bar>fst (rtm_clampPan st px py sc) - px\<bar> \<le> \<bar>fst q - px\<bar> \<and>
         \<bar>snd (rtm_clampPan st px py sc) - py\<bar> \<le> \<bar>snd q - py\<bar>"
proof (cases "current_canvas (canvasContainerRef st)")
  case None
  then show ?thesis by (simp add: rtm_clampPan_def)
next
  case (Some cv)
  show ?thesis
  proof (cases "bgImage st")
    case None
    then show ?thesis by (simp add: rtm_clampPan_no_background)
  next
    case (Some bg)
    with \<open>current_canvas (canvasContainerRef st) = Some cv\<close> assms show ?thesis
      by (simp add: rtm_clampPan_background pan_within_bounds_def clamp_nearest)
  qed
qed

lemma cdt_zoom_anchor:
  assumes sc: "1 \<le> scale cst" "scale cst \<le> 4"
    and cv: "current_canvas (containerRef cst) = Some cv"
  shows "(let st' = cdt_handleWheel cst e;
          localX = clientX e - rect_left (getBoundingClientRect cv);
          localY = clientY e - rect_top (getBoundingClientRect cv);
          worldAnchor = cdt_screenToWorld cst (clientX e) (clientY e);
          newScale = min (max 1 (scale cst * (if deltaY e < 0 then 11 / 10 else 10 / 11))) 4;
          newPan = (fst worldAnchor - localX / newScale, snd worldAnchor - localY / newScale);
          clamped = cdt_clampPan cst (fst newPan) (snd newPan) newScale
      in st' = cst\<lparr>scale := newScale, panX := fst clamped, panY := snd clamped\<rparr> \<and>
         pan_within_bounds (Some cv) (backgroundImage cst) newScale clamped \<and>
         (clamped = newPan \<longrightarrow> cdt_screenToWorld st' (clientX e) (clientY e) = worldAnchor) \<and>
         (\<forall>q. pan_within_bounds (Some cv) (backgroundImage cst) newScale q \<longrightarrow>
            \<bar>fst (cdt_screenToWorld st' (clientX e) (clientY e)) - fst worldAnchor\<bar>
              \<le> \<bar>fst (cdt_screenToWorld (st'\<lparr>panX := fst q, panY := snd q\<rparr>) (clientX e) (clientY e))
                    - fst worldAnchor\<bar> \<and>
            \<bar>snd (cdt_screenToWorld st' (clientX e) (clientY e)) - snd worldAnchor\<bar>
              \<le> \<bar>snd (cdt_screenToWorld (st'\<lparr>panX := fst q, panY := snd q\<rparr>) (clientX e) (clientY e))
                    - snd worldAnchor\<bar>))"
proof -
  define newScale where
    "newScale = min (max 1 (scale cst * (if deltaY e < 0 then 11 / 10 else 10 / 11))) 4"
  define lx where "lx = clientX e - rect_left (getBoundingClientRect cv)"
  define ly where "ly = clientY e - rect_top (getBoundingClientRect cv)"
  define w where "w = cdt_screenToWorld cst (clientX e) (clientY e)"
  define cx where "cx = fst w - lx / newScale"
  define cy where "cy = snd w - ly / newScale"
  define cl where "cl = cdt_clampPan cst cx cy newScale"
  define st' where "st' = cst\<lparr>scale := newScale, panX := fst cl, panY := snd cl\<rparr>"
  have step: "cdt_handleWheel cst e = st'"
    using cdt_handleWheel_canvas [OF sc cv, of e]
    by (simp add: Let_def st'_def cl_def cx_def cy_def w_def lx_def ly_def newScale_def)
  have cv': "current_canvas (containerRef st') = Some cv"
    using cv by (simp add: st'_def)
  have within: "pan_within_bounds (Some cv) (backgroundImage cst) newScale cl"
    using cdt_clampPan_within [of cst newScale cx cy] cv by (simp add: cl_def)
  have after: "cdt_screenToWorld (st'\<lparr>panX := a, panY := b\<rparr>) (clientX e) (clientY e) =
                 (lx / newScale + a, ly / newScale + b)" for a b
    using cv by (simp add: cdt_screenToWorld_canvas st'_def lx_def ly_def)
  have after': "cdt_screenToWorld st' (clientX e) (clientY e) =
                 (lx / newScale + fst cl, ly / newScale + snd cl)"
    using cv' by (simp add: cdt_screenToWorld_canvas lx_def ly_def) (simp add: st'_def)
  have fixed: "cl = (cx, cy) \<Longrightarrow> cdt_screenToWorld st' (clientX e) (clientY e) = w"
    by (simp add: after' cx_def cy_def)
  have near: "\<bar>fst (cdt_screenToWorld st' (clientX e) (clientY e)) - fst w\<bar>
              \<le> \<bar>fst (cdt_screenToWorld (st'\<lparr>panX := fst q, panY := snd q\<rparr>) (clientX e) (clientY e))
                    - fst w\<bar> \<and>
            \<bar>snd (cdt_screenToWorld st' (clientX e) (clientY e)) - snd w\<bar>
              \<le> \<bar>snd (cdt_screenToWorld (st'\<lparr>panX := fst q, panY := snd q\<rparr>) (clientX e) (clientY e))
                    - snd w\<bar>"
    if "pan_within_bounds (Some cv) (backgroundImage cst) newScale q" for q
  proof -
    have "\<bar>fst cl - cx\<bar> \<le> \<bar>fst q - cx\<bar> \<and> \<bar>snd cl - cy\<bar> \<le> \<bar>snd q - cy\<bar>"
      using cdt_clampPan_nearest [of cst newScale q cx cy] that cv by (simp add: cl_def)
    then show ?thesis
      by (simp add: after after' cx_def cy_def algebra_simps)
  qed
  show ?thesis
    unfolding Let_def step
    using within fixed near
    by (simp add: st'_def cl_def cx_def cy_def w_def lx_def ly_def newScale_def)
qed

lemma rtm_zoom_anchor:
  assumes cv: "current_canvas (canvasContainerRef rst) = Some cv"
  shows "(let st' = rtm_handleWheel rst e;
          localX = clientX e - rect_left (getBoundingClientRect cv);
          localY = clientY e - rect_top (getBoundingClientRect cv);
          worldAnchor = rtm_screenToWorld rst (clientX e) (clientY e);
          newScale = min (max 1 (scale rst * (if deltaY e < 0 then 11 / 10 else 10 / 11))) 4;
          newPan = (fst worldAnchor - localX / newScale, snd worldAnchor - localY / newScale);
          clamped = rtm_clampPan rst (fst newPan) (snd newPan) newScale
      in st' = rst\<lparr>scale := newScale, pan := clamped\<rparr> \<and>
         pan_within_bounds (Some cv) (bgImage rst) newScale clamped \<and>
         (clamped = newPan \<longrightarrow> rtm_screenToWorld st' (clientX e) (clientY e) = worldAnchor) \<and>
         (\<forall>q. pan_within_bounds (Some cv) (bgImage rst) newScale q \<longrightarrow>
            \<bar>fst (rtm_screenToWorld st' (clientX e) (clientY e)) - fst worldAnchor\<bar>
              \<le> \<bar>fst (rtm_screenToWorld (st'\<lparr>pan := q\<rparr>) (clientX e) (clientY e))
                    - fst worldAnchor\<bar> \<and>
            \<bar>snd (rtm_screenToWorld st' (clientX e) (clientY e)) - snd worldAnchor\<bar>
              \<le> \<bar>snd (rtm_screenToWorld (st'\<lparr>pan := q\<rparr>) (clientX e) (clientY e))
                    - snd worldAnchor\<bar>))"
proof -
  define newScale where
    "newScale = min (max 1 (scale rst * (if deltaY e < 0 then 11 / 10 else 10 / 11))) 4"
  define lx where "lx = clientX e - rect_left (getBoundingClientRect cv)"
  define ly where "ly = clientY e - rect_top (getBoundingClientRect cv)"
  define w where "w = rtm_screenToWorld rst (clientX e) (clientY e)"
  define cx where "cx = fst w - lx / newScale"
  define cy where "cy = snd w - ly / newScale"
  define cl where "cl = rtm_clampPan rst cx cy newScale"
  define st' where "st' = rst\<lparr>scale := newScale, pan := cl\<rparr>"
  have step: "rtm_handleWheel rst e = st'"
    using rtm_handleWheel_canvas [OF cv, of e]
    by (simp add: Let_def st'_def cl_def cx_def cy_def w_def lx_def ly_def newScale_def)
  have within: "pan_within_bounds (Some cv) (bgImage rst) newScale cl"
    using rtm_clampPan_within [of rst newScale cx cy] cv by (simp add: cl_def)
  have after: "rtm_screenToWorld (st'\<lparr>pan := q\<rparr>) (clientX e) (clientY e) =
                 (lx / newScale + fst q, ly / newScale + snd q)" for q
    using cv by (simp add: rtm_screenToWorld_canvas st'_def lx_def ly_def)
  have after': "rtm_screenToWorld st' (clientX e) (clientY e) =
                 (lx / newScale + fst cl, ly / newScale + snd cl)"
    using after [of cl] by (simp add: st'_def)
  have fixed: "cl = (cx, cy) \<Longrightarrow> rtm_screenToWorld st' (clientX e) (clientY e) = w"
    by (simp add: after' cx_def cy_def)
  have near: "\<bar>fst (rtm_screenToWorld st' (clientX e) (clientY e)) - fst w\<bar>
              \<le> \<bar>fst (rtm_screenToWorld (st'\<lparr>pan := q\<rparr>) (clientX e) (clientY e)) - fst w\<bar> \<and>
            \<bar>snd (rtm_screenToWorld st' (clientX e) (clientY e)) - snd w\<bar>
              \<le> \<bar>snd (rtm_screenToWorld (st'\<lparr>pan := q\<rparr>) (clientX e) (clientY e)) - snd w\<bar>"
    if "pan_within_bounds (Some cv) (bgImage rst) newScale q" for q
  proof -
    have "\<bar>fst cl - cx\<bar> \<le> \<bar>fst q - cx\<bar> \<and> \<bar>snd cl - cy\<bar> \<le> \<bar>snd q - cy\<bar>"
      using rtm_clampPan_nearest [of rst newScale q cx cy] that cv by (simp add: cl_def)
    then show ?thesis
      by (simp add: after after' cx_def cy_def algebra_simps)
  qed
  show ?thesis
    unfolding Let_def step
    using within fixed near
    by (simp add: st'_def cl_def cx_def cy_def w_def lx_def ly_def newScale_def)
qed

text \<open>
  C2. With a mounted canvas and a scale between 1 and 4, a wheel event at an anchor point
  sets the scale to \<open>clamp (scale * factor) 1 4\<close>, the factor being 1.1 for a negative
  \<^verbatim>\<open>deltaY\<close> and 1 / 1.1 otherwise, and sets the pan to the clamp of
  \<open>worldAnchor - anchorLocalOffset / newScale\<close>; scale and pan change in the same state
  update and nothing else changes. The new pan is within the clamp bounds of the new
  scale. Where the clamp leaves the requested pan as it is, \<^verbatim>\<open>screenToWorld\<close> of the anchor
  is the same world point after the event as before. Otherwise the world point under the
  anchor moves, in each coordinate, no further than it would with any other pan within
  the clamp bounds. Both components.
\<close>

theorem zoom_anchor_invariance:
  "(1 \<le> scale cst \<and> scale cst \<le> 4 \<and> current_canvas (containerRef cst) = Some cv \<longrightarrow>
     (let st' = cdt_handleWheel cst e;
          localX = clientX e - rect_left (getBoundingClientRect cv);
          localY = clientY e - rect_top (getBoundingClientRect cv);
          worldAnchor = cdt_screenToWorld cst (clientX e) (clientY e);
          newScale = min (max 1 (scale cst * (if deltaY e < 0 then 11 / 10 else 10 / 11))) 4;
          newPan = (fst worldAnchor - localX / newScale, snd worldAnchor - localY / newScale);
          clamped = cdt_clampPan cst (fst newPan) (snd newPan) newScale
      in st' = cst\<lparr>scale := newScale, panX := fst clamped, panY := snd clamped\<rparr> \<and>
         pan_within_bounds (Some cv) (backgroundImage cst) newScale clamped \<and>
         (clamped = newPan \<longrightarrow> cdt_screenToWorld st' (clientX e) (clientY e) = worldAnchor) \<and>
         (\<forall>q. pan_within_bounds (Some cv) (backgroundImage cst) newScale q \<longrightarrow>
            \<bar>fst (cdt_screenToWorld st' (clientX e) (clientY e)) - fst worldAnchor\<bar>
              \<le> \<bar>fst (cdt_screenToWorld (st'\<lparr>panX := fst q, panY := snd q\<rparr>) (clientX e) (clientY e))
                    - fst worldAnchor\<bar> \<and>
            \<bar>snd (cdt_screenToWorld st' (clientX e) (clientY e)) - snd worldAnchor\<bar>
              \<le> \<bar>snd (cdt_screenToWorld (st'\<lparr>panX := fst q, panY := snd q\<rparr>) (clientX e) (clientY e))
                    - snd worldAnchor\<bar>))) \<and>
   (1 \<le> scale rst \<and> scale rst \<le> 4 \<and> current_canvas (canvasContainerRef rst) = Some cv' \<longrightarrow>
     (let st' = rtm_handleWheel rst e;
          localX = clientX e - rect_left (getBoundingClientRect cv');
          localY = clientY e - rect_top (getBoundingClientRect cv');
          worldAnchor = rtm_screenToWorld rst (clientX e) (clientY e);
          newScale = min (max 1 (scale rst * (if deltaY e < 0 then 11 / 10 else 10 / 11))) 4;
          newPan = (fst worldAnchor - localX / newScale, snd worldAnchor - localY / newScale);
          clamped = rtm_clampPan rst (fst newPan) (snd newPan) newScale
      in st' = rst\<lparr>scale := newScale, pan := clamped\<rparr> \<and>
         pan_within_bounds (Some cv') (bgImage rst) newScale clamped \<and>
         (clamped = newPan \<longrightarrow> rtm_screenToWorld st' (clientX e) (clientY e) = worldAnchor) \<and>
         (\<forall>q. pan_within_bounds (Some cv') (bgImage rst) newScale q \<longrightarrow>
            \<bar>fst (rtm_screenToWorld st' (clientX e) (clientY e)) - fst worldAnchor\<bar>
              \<le> \<bar>fst (rtm_screenToWorld (st'\<lparr>pan := q\<rparr>) (clientX e) (clientY e))
                    - fst worldAnchor\<bar> \<and>
            \<bar>snd (rtm_screenToWorld st' (clientX e) (clientY e)) - snd worldAnchor\<bar>
              \<le> \<bar>snd (rtm_screenToWorld (st'\<lparr>pan := q\<rparr>) (clientX e) (clientY e))
                    - snd worldAnchor\<bar>)))"
  using cdt_zoom_anchor [of cst cv e] rtm_zoom_anchor [of rst cv' e] by blast

theorem zoom_anchor_invariance_witness:
  "1 \<le> scale cdt_example \<and> scale cdt_example \<le> 4 \<and>
   current_canvas (containerRef cdt_example) = Some example_canvas \<and>
   scale (cdt_handleWheel cdt_example (example_wheel 550 440 (- 1))) = 11 / 10 \<and>
   cdt_screenToWorld cdt_example 550 440 = (550, 440) \<and>
   cdt_screenToWorld (cdt_handleWheel cdt_example (example_wheel 550 440 (- 1))) 550 440 = (550, 440) \<and>
   1 \<le> scale rtm_example \<and> scale rtm_example \<le> 4 \<and>
   current_canvas (canvasContainerRef rtm_example) = Some example_canvas \<and>
   scale (rtm_handleWheel rtm_example (example_wheel 550 440 (- 1))) = 11 / 10 \<and>
   rtm_screenToWorld rtm_example 550 440 = (550, 440) \<and>
   rtm_screenToWorld (rtm_handleWheel rtm_example (example_wheel 550 440 (- 1))) 550 440 = (550, 440)"
proof -
  have h: "1 \<le> scale cdt_example \<and> scale cdt_example \<le> 4 \<and>
      current_canvas (containerRef cdt_example) = Some example_canvas"
    "1 \<le> scale rtm_example \<and> scale rtm_example \<le> 4 \<and>
      current_canvas (canvasContainerRef rtm_example) = Some example_canvas"
    by (simp_all add: example_defs)
  have c: "cdt_clampPan cdt_example 50 40 (11 / 10) = (50, 40)"
    "rtm_clampPan rtm_example 50 40 (11 / 10) = (50, 40)"
    by (simp_all add: example_defs cdt_clampPan_def rtm_clampPan_def)
  have w: "cdt_screenToWorld cdt_example 550 440 = (550, 440)"
    "rtm_screenToWorld rtm_example 550 440 = (550, 440)"
    by (simp_all add: example_defs cdt_screenToWorld_def rtm_screenToWorld_def)
  have l: "clientX (example_wheel 550 440 (- 1)) = 550" "clientY (example_wheel 550 440 (- 1)) = 440"
    "deltaY (example_wheel 550 440 (- 1)) = - 1"
    "rect_left (getBoundingClientRect example_canvas) = 0"
    "rect_top (getBoundingClientRect example_canvas) = 0"
    by (simp_all add: example_wheel_def example_canvas_def)
  have s: "scale cdt_example = 1" "scale rtm_example = 1"
    by (simp_all add: example_defs)
  have a: "cdt_screenToWorld
             (cdt_example\<lparr>scale := 11 / 10, panX := 50, panY := 40\<rparr>) 550 440 = (550, 440)"
    "rtm_screenToWorld (rtm_example\<lparr>scale := 11 / 10, pan := (50, 40)\<rparr>) 550 440 = (550, 440)"
    by (simp_all add: example_defs cdt_screenToWorld_def rtm_screenToWorld_def)
  show ?thesis
    using zoom_anchor_invariance [of cdt_example example_canvas "example_wheel 550 440 (- 1)"
            rtm_example example_canvas] h
    by (simp add: Let_def w l c s a)
qed

section \<open>Theorems: arrows\<close>

lemma atan2_zero: "atan2 0 0 = 0"
  by (simp add: atan2_def)

text \<open>
  The arrow of part_000 in the degenerate case: when the distance from start to end is
  below \<open>1.5 * lineWidth\<close> the helper issues the calls of the arrowhead only, starting with
  a path at the end point, and no \<^verbatim>\<open>stroke\<close>.
\<close>

lemma cdt_drawArrow_degenerate:
  assumes "sqrt ((fst (endp a) - fst (start a)) * (fst (endp a) - fst (start a)) +
                 (snd (endp a) - snd (start a)) * (snd (endp a) - snd (start a)))
             < lineWidth a * (3 / 2)"
  shows "cdt_drawArrow ctx a =
           cdt_drawArrowHead ctx (fst (endp a)) (snd (endp a))
             (atan2 (snd (endp a) - snd (start a)) (fst (endp a) - fst (start a)))
             (lineWidth a) (lineWidth a * 3)"
    and "Stroke \<notin> set (drop (length ctx) (cdt_drawArrow ctx a))"
    and "take 2 (drop (length ctx) (cdt_drawArrow ctx a)) =
           [BeginPath, MoveTo (fst (endp a)) (snd (endp a))]"
  using assms by (simp_all add: cdt_drawArrow_def cdt_drawArrowHead_def Let_def)

text \<open>
  C8 at a concrete input, for part_001: for an arrow whose start and end coincide at the
  origin, with line width 10 (distance 0, below the pullback distance 15), the first four
  calls of \<^verbatim>\<open>drawArrow\<close> stroke a shaft from the origin to \<open>(- 30, 0)\<close>.
\<close>

theorem rtm_drawArrow_degenerate_shaft:
  "start (example_action None) = endp (example_action None) \<and>
   take 4 (rtm_drawArrow [] (example_action None)) =
     [BeginPath, MoveTo 0 0, LineTo (- 30) 0, Stroke]"
  by (simp add: rtm_drawArrow_def example_action_def atan2_zero Let_def)

section \<open>Theorems: viewport invariant\<close>

lemma cdt_zoomAroundCenter_ok:
  "scale_ok n \<Longrightarrow> cdt_viewport_ok (cdt_zoomAroundCenter st n)"
proof (cases "current_canvas (containerRef st)")
  case None
  assume "scale_ok n"
  with None show ?thesis
    by (simp add: cdt_zoomAroundCenter_def cdt_viewport_ok_def pan_within_bounds_def)
next
  case (Some cv)
  assume "scale_ok n"
  with Some cdt_clampPan_within [of st n] show ?thesis
    by (simp add: cdt_zoomAroundCenter_def cdt_viewport_ok_def Let_def)
qed

lemma cdt_zoomIn_ok: "scale_ok (scale st) \<Longrightarrow> cdt_viewport_ok (cdt_zoomIn st)"
  unfolding cdt_zoomIn_def Let_def
  by (rule cdt_zoomAroundCenter_ok) (simp add: scale_ok_def)

lemma cdt_zoomOut_ok: "scale_ok (scale st) \<Longrightarrow> cdt_viewport_ok (cdt_zoomOut st)"
  unfolding cdt_zoomOut_def Let_def
  by (rule cdt_zoomAroundCenter_ok) (simp add: scale_ok_def)

lemma cdt_handleWheel_ok:
  assumes "scale_ok (scale st)"
  shows "cdt_viewport_ok (cdt_handleWheel st e)"
proof (cases "current_canvas (containerRef st)")
  case None
  with assms show ?thesis
    by (simp add: cdt_handleWheel_def cdt_viewport_ok_def pan_within_bounds_def)
next
  case (Some cv)
  have sc: "1 \<le> scale st" "scale st \<le> 4"
    using assms by (simp_all add: scale_ok_def)
  show ?thesis
    using cdt_zoom_anchor [OF sc Some, of e] Some
    by (simp add: Let_def cdt_viewport_ok_def scale_ok_def)
qed

lemma cdt_pan_move_ok:
  assumes "scale_ok (scale st)" "isPanning st"
  shows "cdt_viewport_ok (cdt_handleMouseMove st now e)"
  using assms cdt_clampPan_within [of st "scale st"]
  by (simp add: cdt_handleMouseMove_def cdt_viewport_ok_def Let_def)

lemma rtm_zoomByFactor_ok: "rtm_viewport_ok (rtm_zoomByFactor st factor)"
proof (cases "current_canvas (canvasContainerRef st)")
  case None
  then show ?thesis
    by (simp add: rtm_zoomByFactor_def rtm_viewport_ok_def pan_within_bounds_def Let_def
          scale_ok_def)
next
  case (Some cv)
  with rtm_clampPan_within [of st "min (max 1 (scale st * factor)) 4"] show ?thesis
    by (simp add: rtm_zoomByFactor_def rtm_viewport_ok_def Let_def scale_ok_def)
qed

lemma rtm_handleWheel_ok:
  assumes "scale_ok (scale st)"
  shows "rtm_viewport_ok (rtm_handleWheel st e)"
proof (cases "current_canvas (canvasContainerRef st)")
  case None
  with assms show ?thesis
    by (simp add: rtm_handleWheel_def rtm_viewport_ok_def pan_within_bounds_def)
next
  case (Some cv)
  show ?thesis
    using rtm_zoom_anchor [OF Some, of e] Some
    by (simp add: Let_def rtm_viewport_ok_def scale_ok_def)
qed

lemma rtm_pan_move_ok:
  assumes "scale_ok (scale st)" "isPanning st"
  shows "rtm_viewport_ok (rtm_handleMouseMove st now e)"
  using assms rtm_clampPan_within [of st "scale st"]
  by (simp add: rtm_handleMouseMove_def rtm_viewport_ok_def Let_def)

lemma cdt_viewport_ok_scale: "cdt_viewport_ok st \<Longrightarrow> scale_ok (scale st)"
  by (simp add: cdt_viewport_ok_def)

lemma rtm_viewport_ok_scale: "rtm_viewport_ok st \<Longrightarrow> scale_ok (scale st)"
  by (simp add: rtm_viewport_ok_def)

lemma cdt_zoomIn_repeated: "scale_ok (scale st) \<Longrightarrow> scale_ok (scale ((cdt_zoomIn ^^ n) st))"
  by (induction n) (simp_all add: cdt_zoomIn_ok cdt_viewport_ok_scale)

lemma cdt_zoomOut_repeated: "scale_ok (scale st) \<Longrightarrow> scale_ok (scale ((cdt_zoomOut ^^ n) st))"
  by (induction n) (simp_all add: cdt_zoomOut_ok cdt_viewport_ok_scale)

lemma cdt_wheel_repeated:
  "scale_ok (scale st) \<Longrightarrow> scale_ok (scale (foldl cdt_handleWheel st es))"
  by (induction es arbitrary: st) (simp_all add: cdt_handleWheel_ok cdt_viewport_ok_scale)

lemma rtm_wheel_repeated:
  "scale_ok (scale st) \<Longrightarrow> scale_ok (scale (foldl rtm_handleWheel st es))"
  by (induction es arbitrary: st) (simp_all add: rtm_handleWheel_ok rtm_viewport_ok_scale)

lemma rtm_zoom_repeated:
  "scale_ok (scale st) \<Longrightarrow> scale_ok (scale (((\<lambda>s. rtm_zoomByFactor s factor) ^^ n) st))"
  by (induction n) (simp_all add: rtm_zoomByFactor_ok rtm_viewport_ok_scale)

lemma cdt_resetZoom_ok: "cdt_viewport_ok (cdt_resetZoom st)"
  by (simp add: cdt_resetZoom_def cdt_viewport_ok_def scale_ok_def pan_within_bounds_def
        split: option.split)

text \<open>
  C3. From a state whose scale is between 1 and 4, a wheel zoom, the zoom-in and zoom-out
  buttons, and a pointer move while panning each lead to a state whose scale is between
  1 and 4 and whose pan is within the clamp bounds for the new scale; repeating the
  zoom-in button, the zoom-out button, wheel events, or \<^verbatim>\<open>zoomByFactor\<close> with the factor 10
  or 0.01 any number of times keeps the scale between 1 and 4. \<^verbatim>\<open>zoomByFactor\<close> of part_001
  establishes the invariant from any state. \<^verbatim>\<open>resetZoom\<close> of part_000 assigns scale 1 and
  pan \<open>(0, 0)\<close> without calling the clamp (and that state satisfies the invariant).
\<close>

theorem viewport_invariant:
  "(scale_ok (scale cst) \<longrightarrow>
      cdt_viewport_ok (cdt_handleWheel cst we) \<and>
      cdt_viewport_ok (cdt_zoomIn cst) \<and>
      cdt_viewport_ok (cdt_zoomOut cst) \<and>
      (isPanning cst \<longrightarrow> cdt_viewport_ok (cdt_handleMouseMove cst now me)) \<and>
      scale_ok (scale ((cdt_zoomIn ^^ n) cst)) \<and>
      scale_ok (scale ((cdt_zoomOut ^^ n) cst)) \<and>
      scale_ok (scale (foldl cdt_handleWheel cst wes))) \<and>
   cdt_resetZoom cst = cst\<lparr>scale := 1, panX := 0, panY := 0\<rparr> \<and>
   cdt_viewport_ok (cdt_resetZoom cst) \<and>
   (scale_ok (scale rst) \<longrightarrow>
      rtm_viewport_ok (rtm_handleWheel rst we) \<and>
      (isPanning rst \<longrightarrow> rtm_viewport_ok (rtm_handleMouseMove rst now me)) \<and>
      scale_ok (scale (((\<lambda>s. rtm_zoomByFactor s 10) ^^ n) rst)) \<and>
      scale_ok (scale (((\<lambda>s. rtm_zoomByFactor s (1 / 100)) ^^ n) rst)) \<and>
      scale_ok (scale (foldl rtm_handleWheel rst wes))) \<and>
   rtm_viewport_ok (rtm_zoomByFactor rst factor) \<and>
   rtm_viewport_ok (rtm_zoomInButton rst) \<and>
   rtm_viewport_ok (rtm_zoomOutButton rst)"
  using cdt_resetZoom_ok [of cst]
  by (simp add: cdt_handleWheel_ok cdt_zoomIn_ok cdt_zoomOut_ok cdt_pan_move_ok
        cdt_zoomIn_repeated cdt_zoomOut_repeated cdt_wheel_repeated cdt_resetZoom_def
        rtm_handleWheel_ok rtm_pan_move_ok rtm_zoom_repeated rtm_wheel_repeated
        rtm_zoomByFactor_ok rtm_zoomInButton_def rtm_zoomOutButton_def)


theorem viewport_invariant_witness:
  "scale_ok (scale (cdt_example\<lparr>isPanning := True\<rparr>)) \<and>
   isPanning (cdt_example\<lparr>isPanning := True\<rparr>) \<and>
   cdt_viewport_ok (cdt_handleMouseMove (cdt_example\<lparr>isPanning := True\<rparr>) 0
     (example_mouse (- 300) (- 200) True)) \<and>
   panX (cdt_handleMouseMove (cdt_example\<lparr>isPanning := True\<rparr>) 0
     (example_mouse (- 300) (- 200) True)) = 300 \<and>
   panY (cdt_handleMouseMove (cdt_example\<lparr>isPanning := True\<rparr>) 0
     (example_mouse (- 300) (- 200) True)) = 200 \<and>
   scale (cdt_zoomIn (cdt_example\<lparr>isPanning := True\<rparr>)) = 11 / 10 \<and>
   cdt_viewport_ok (cdt_zoomIn (cdt_example\<lparr>isPanning := True\<rparr>)) \<and>
   scale_ok (scale (rtm_example\<lparr>isPanning := True\<rparr>)) \<and>
   isPanning (rtm_example\<lparr>isPanning := True\<rparr>) \<and>
   rtm_viewport_ok (rtm_handleMouseMove (rtm_example\<lparr>isPanning := True\<rparr>) 0
     (example_mouse (- 300) (- 200) True)) \<and>
   pan (rtm_handleMouseMove (rtm_example\<lparr>isPanning := True\<rparr>) 0
     (example_mouse (- 300) (- 200) True)) = (300, 200) \<and>
   scale (rtm_zoomByFactor (rtm_example\<lparr>isPanning := True\<rparr>) 10) = 4 \<and>
   rtm_viewport_ok (rtm_zoomByFactor (rtm_example\<lparr>isPanning := True\<rparr>) 10)"
proof -
  have c: "cdt_clampPan (cdt_example\<lparr>isPanning := True\<rparr>) 300 200 1 = (300, 200)"
    "rtm_clampPan (rtm_example\<lparr>isPanning := True\<rparr>) 300 200 1 = (300, 200)"
    by (simp_all add: example_defs cdt_clampPan_def rtm_clampPan_def)
  have m: "panX (cdt_handleMouseMove (cdt_example\<lparr>isPanning := True\<rparr>) 0
             (example_mouse (- 300) (- 200) True)) = 300"
    "panY (cdt_handleMouseMove (cdt_example\<lparr>isPanning := True\<rparr>) 0
             (example_mouse (- 300) (- 200) True)) = 200"
    "pan (rtm_handleMouseMove (rtm_example\<lparr>isPanning := True\<rparr>) 0
             (example_mouse (- 300) (- 200) True)) = (300, 200)"
    using c
    by (simp_all add: cdt_handleMouseMove_def rtm_handleMouseMove_def Let_def example_mouse_def)
      (simp_all add: example_defs)
  have z: "scale (cdt_zoomIn (cdt_example\<lparr>isPanning := True\<rparr>)) = 11 / 10"
    "scale (rtm_zoomByFactor (rtm_example\<lparr>isPanning := True\<rparr>) 10) = 4"
    by (simp_all add: cdt_zoomIn_def cdt_zoomAroundCenter_def rtm_zoomByFactor_def Let_def
          example_defs)
  have h: "scale_ok (scale (cdt_example\<lparr>isPanning := True\<rparr>))"
    "scale_ok (scale (rtm_example\<lparr>isPanning := True\<rparr>))"
    by (simp_all add: scale_ok_def example_defs)
  show ?thesis
    using viewport_invariant [of "cdt_example\<lparr>isPanning := True\<rparr>"
            "example_wheel 550 440 (- 1)" 0 "example_mouse (- 300) (- 200) True" 2 "[]"
            "rtm_example\<lparr>isPanning := True\<rparr>" 10] h m z
    by simp
qed

section \<open>Theorems: gesture router\<close>

lemma states_nonempty: "states f s es \<noteq> []"
  by (cases es) simp_all

lemma states_last: "last (states f s es) = foldl f s es"
  by (induction es arbitrary: s) (simp_all add: states_nonempty)

lemma states_inv:
  assumes "P s" and "\<And>t e. e \<in> set es \<Longrightarrow> P t \<Longrightarrow> P (f t e)"
  shows "\<forall>t \<in> set (states f s es). P t"
  using assms by (induction es arbitrary: s) auto

lemma foldl_inv:
  assumes "P s" and "\<And>t e. e \<in> set es \<Longrightarrow> P t \<Longrightarrow> P (f t e)"
  shows "P (foldl f s es)"
  using assms by (induction es arbitrary: s) auto

lemma states_head: "s \<in> set (states f s es)"
  by (cases es) simp_all

lemma set_states_append:
  "set (states f s (es1 @ es2)) = set (states f s es1) \<union> set (states f (foldl f s es1) es2)"
  using states_head [of "foldl f s es1" f es2]
  by (induction es1 arbitrary: s) auto

subsection \<open>Gestures of part_000\<close>

lemma cdt_pan_step:
  assumes "\<not> isDrawing t" "\<forall>d. snd e \<noteq> MouseDown d"
  shows "\<not> isDrawing (cdt_pointer t e) \<and> drawActions (cdt_pointer t e) = drawActions t"
proof (cases e)
  case (Pair now ev)
  with assms show ?thesis
    by (cases ev) (simp_all add: cdt_handleMouseMove_def cdt_handleMouseUp_def Let_def)
qed

lemma cdt_draw_step:
  assumes "\<not> isPanning t" "\<forall>d. snd e \<noteq> MouseDown d"
  shows "\<not> isPanning (cdt_pointer t e) \<and> scale (cdt_pointer t e) = scale t \<and>
         panX (cdt_pointer t e) = panX t \<and> panY (cdt_pointer t e) = panY t"
proof (cases e)
  case (Pair now ev)
  with assms show ?thesis
    by (cases ev) (simp_all add: cdt_handleMouseMove_def cdt_handleMouseUp_def Let_def)
qed

lemma cdt_up_idle:
  assumes "\<not> (isPanning t \<and> isDrawing t)"
  shows "\<not> isPanning (cdt_handleMouseUp t now e) \<and> \<not> isDrawing (cdt_handleMouseUp t now e)"
  using assms by (simp add: cdt_handleMouseUp_def Let_def)

lemma cdt_down_idle:
  assumes "\<not> isPanning s" "\<not> isDrawing s"
  shows "\<not> (isPanning (cdt_handleMouseDown s e) \<and> isDrawing (cdt_handleMouseDown s e))"
    and "drawActions (cdt_handleMouseDown s e) = drawActions s"
    and "scale (cdt_handleMouseDown s e) = scale s"
    and "panX (cdt_handleMouseDown s e) = panX s"
    and "panY (cdt_handleMouseDown s e) = panY s"
    and "containerRef s \<noteq> None \<Longrightarrow>
           isPanning (cdt_handleMouseDown s e) = ctrlKey e \<and>
           isDrawing (cdt_handleMouseDown s e) = (\<not> ctrlKey e)"
  using assms by (simp_all add: cdt_handleMouseDown_def Let_def)

lemma cdt_gesture:
  assumes idle: "\<not> isPanning cst" "\<not> isDrawing cst"
  shows "(let run = states cdt_pointer cst (gesture d ms u);
              s1 = cdt_handleMouseDown cst (snd d)
          in (\<forall>t \<in> set run. \<not> (isPanning t \<and> isDrawing t)) \<and>
             \<not> isPanning (last run) \<and> \<not> isDrawing (last run) \<and>
             (containerRef cst \<noteq> None \<longrightarrow>
                isPanning s1 = ctrlKey (snd d) \<and> isDrawing s1 = (\<not> ctrlKey (snd d))) \<and>
             (isPanning s1 \<longrightarrow> (\<forall>t \<in> set run. drawActions t = drawActions cst)) \<and>
             (isDrawing s1 \<longrightarrow>
                (\<forall>t \<in> set run. scale t = scale cst \<and> panX t = panX cst \<and> panY t = panY cst)))"
proof -
  define s1 where "s1 = cdt_handleMouseDown cst (snd d)"
  define moves where "moves = map (\<lambda>m. (fst m, MouseMove (snd m))) ms"
  define tail where "tail = moves @ [(fst u, MouseUp (snd u))]"
  define run where "run = states cdt_pointer cst (gesture d ms u)"
  have run: "run = cst # states cdt_pointer s1 tail"
    by (simp add: run_def gesture_def tail_def moves_def s1_def)
  have nd: "\<forall>d. snd e \<noteq> MouseDown d" if "e \<in> set tail" for e
    using that by (auto simp: tail_def moves_def)
  have ndm: "\<forall>d. snd e \<noteq> MouseDown d" if "e \<in> set moves" for e
    using that by (auto simp: moves_def)
  note down = cdt_down_idle [OF idle, of "snd d", folded s1_def]
  have pan: "\<forall>t \<in> set (states cdt_pointer s1 tail).
               \<not> isDrawing t \<and> drawActions t = drawActions cst" if "\<not> isDrawing s1"
  proof (rule states_inv [where P = "\<lambda>t::CollaborativeDrawingTool. \<not> isDrawing t \<and> drawActions t = drawActions cst"])
    show "\<not> isDrawing s1 \<and> drawActions s1 = drawActions cst"
      using that down(2) by simp
  next
    fix t :: CollaborativeDrawingTool and e :: "real \<times> pointer_event"
    assume "e \<in> set tail" "\<not> isDrawing t \<and> drawActions t = drawActions cst"
    then show "\<not> isDrawing (cdt_pointer t e) \<and> drawActions (cdt_pointer t e) = drawActions cst"
      using cdt_pan_step [of t e] nd [of e] by simp
  qed
  have draw: "\<forall>t \<in> set (states cdt_pointer s1 tail).
               \<not> isPanning t \<and> scale t = scale cst \<and> panX t = panX cst \<and> panY t = panY cst"
    if "\<not> isPanning s1"
  proof (rule states_inv [where P = "\<lambda>t::CollaborativeDrawingTool. \<not> isPanning t \<and> scale t = scale cst \<and>
                                        panX t = panX cst \<and> panY t = panY cst"])
    show "\<not> isPanning s1 \<and> scale s1 = scale cst \<and> panX s1 = panX cst \<and> panY s1 = panY cst"
      using that down(3,4,5) by simp
  next
    fix t :: CollaborativeDrawingTool and e :: "real \<times> pointer_event"
    assume "e \<in> set tail"
      "\<not> isPanning t \<and> scale t = scale cst \<and> panX t = panX cst \<and> panY t = panY cst"
    then show "\<not> isPanning (cdt_pointer t e) \<and> scale (cdt_pointer t e) = scale cst \<and>
               panX (cdt_pointer t e) = panX cst \<and> panY (cdt_pointer t e) = panY cst"
      using cdt_draw_step [of t e] nd [of e] by simp
  qed
  have excl: "\<forall>t \<in> set run. \<not> (isPanning t \<and> isDrawing t)"
    using pan draw down(1) idle unfolding run by (cases "isDrawing s1") auto
  have before_up: "\<not> (isPanning (foldl cdt_pointer s1 moves) \<and> isDrawing (foldl cdt_pointer s1 moves))"
  proof (cases "isDrawing s1")
    case True
    with down(1) have "\<not> isPanning s1" by simp
    then have "\<not> isPanning (foldl cdt_pointer s1 moves)"
    proof (rule foldl_inv [where P = "\<lambda>t::CollaborativeDrawingTool. \<not> isPanning t"])
      fix t :: CollaborativeDrawingTool and e :: "real \<times> pointer_event"
      assume "e \<in> set moves" "\<not> isPanning t"
      then show "\<not> isPanning (cdt_pointer t e)"
        using cdt_draw_step [of t e] ndm [of e] by simp
    qed
    then show ?thesis by simp
  next
    case False
    then have "\<not> isDrawing (foldl cdt_pointer s1 moves)"
    proof (rule foldl_inv [where P = "\<lambda>t::CollaborativeDrawingTool. \<not> isDrawing t"])
      fix t :: CollaborativeDrawingTool and e :: "real \<times> pointer_event"
      assume "e \<in> set moves" "\<not> isDrawing t"
      then show "\<not> isDrawing (cdt_pointer t e)"
        using cdt_pan_step [of t e] ndm [of e] by simp
    qed
    then show ?thesis by simp
  qed
  have last: "last run = cdt_handleMouseUp (foldl cdt_pointer s1 moves) (fst u) (snd u)"
    by (simp add: run states_nonempty states_last tail_def)
  have final: "\<not> isPanning (last run) \<and> \<not> isDrawing (last run)"
    unfolding last using before_up by (rule cdt_up_idle)
  have pan_all: "\<forall>t \<in> set run. drawActions t = drawActions cst" if "isPanning s1"
    using that down(1) pan unfolding run by auto
  have draw_all: "\<forall>t \<in> set run. scale t = scale cst \<and> panX t = panX cst \<and> panY t = panY cst"
    if "isDrawing s1"
    using that down(1) draw unfolding run by auto
  show ?thesis
    unfolding Let_def run_def [symmetric] s1_def [symmetric]
    using excl final down(6) pan_all draw_all by blast
qed


subsection \<open>Gestures of part_001\<close>

lemma rtm_pan_step:
  assumes "\<not> isDrawing t" "\<forall>d. snd e \<noteq> MouseDown d"
  shows "\<not> isDrawing (rtm_pointer t e) \<and> actions (rtm_pointer t e) = actions t"
proof (cases e)
  case (Pair now ev)
  with assms show ?thesis
    by (cases ev) (simp_all add: rtm_handleMouseMove_def rtm_handleMouseUp_def pushAction_def Let_def)
qed

lemma rtm_draw_step:
  assumes "\<not> isPanning t" "\<forall>d. snd e \<noteq> MouseDown d"
  shows "\<not> isPanning (rtm_pointer t e) \<and> scale (rtm_pointer t e) = scale t \<and>
         pan (rtm_pointer t e) = pan t"
proof (cases e)
  case (Pair now ev)
  with assms show ?thesis
    by (cases ev) (simp_all add: rtm_handleMouseMove_def rtm_handleMouseUp_def pushAction_def Let_def)
qed

lemma rtm_up_idle:
  assumes "\<not> (isPanning t \<and> isDrawing t)"
  shows "\<not> isPanning (rtm_handleMouseUp t now e) \<and> \<not> isDrawing (rtm_handleMouseUp t now e)"
  using assms by (simp add: rtm_handleMouseUp_def pushAction_def Let_def)

lemma rtm_down_idle:
  assumes "\<not> isPanning s" "\<not> isDrawing s"
  shows "\<not> (isPanning (rtm_handleMouseDown s e) \<and> isDrawing (rtm_handleMouseDown s e))"
    and "actions (rtm_handleMouseDown s e) = actions s"
    and "scale (rtm_handleMouseDown s e) = scale s"
    and "pan (rtm_handleMouseDown s e) = pan s"
    and "isPanning (rtm_handleMouseDown s e) = (button e \<noteq> 2 \<and> \<not> menuOpen s \<and> ctrlKey e) \<and>
         isDrawing (rtm_handleMouseDown s e) = (button e \<noteq> 2 \<and> \<not> menuOpen s \<and> \<not> ctrlKey e)"
  using assms by (auto simp: rtm_handleMouseDown_def Let_def)

lemma rtm_gesture:
  assumes idle: "\<not> isPanning rst" "\<not> isDrawing rst"
  shows "(let run = states rtm_pointer rst (gesture d ms u);
              s1 = rtm_handleMouseDown rst (snd d)
          in (\<forall>t \<in> set run. \<not> (isPanning t \<and> isDrawing t)) \<and>
             \<not> isPanning (last run) \<and> \<not> isDrawing (last run) \<and>
             isPanning s1 = (button (snd d) \<noteq> 2 \<and> \<not> menuOpen rst \<and> ctrlKey (snd d)) \<and>
             isDrawing s1 = (button (snd d) \<noteq> 2 \<and> \<not> menuOpen rst \<and> \<not> ctrlKey (snd d)) \<and>
             (isPanning s1 \<longrightarrow> (\<forall>t \<in> set run. actions t = actions rst)) \<and>
             (isDrawing s1 \<longrightarrow>
                (\<forall>t \<in> set run. scale t = scale rst \<and> pan t = pan rst)))"
proof -
  define s1 where "s1 = rtm_handleMouseDown rst (snd d)"
  define moves where "moves = map (\<lambda>m. (fst m, MouseMove (snd m))) ms"
  define tail where "tail = moves @ [(fst u, MouseUp (snd u))]"
  define run where "run = states rtm_pointer rst (gesture d ms u)"
  have run: "run = rst # states rtm_pointer s1 tail"
    by (simp add: run_def gesture_def tail_def moves_def s1_def)
  have nd: "\<forall>d. snd e \<noteq> MouseDown d" if "e \<in> set tail" for e
    using that by (auto simp: tail_def moves_def)
  have ndm: "\<forall>d. snd e \<noteq> MouseDown d" if "e \<in> set moves" for e
    using that by (auto simp: moves_def)
  note down = rtm_down_idle [OF idle, of "snd d", folded s1_def]
  have pan: "\<forall>t \<in> set (states rtm_pointer s1 tail).
               \<not> isDrawing t \<and> actions t = actions rst" if "\<not> isDrawing s1"
  proof (rule states_inv [where P = "\<lambda>t::RealTimeMapApp. \<not> isDrawing t \<and> actions t = actions rst"])
    show "\<not> isDrawing s1 \<and> actions s1 = actions rst"
      using that down(2) by simp
  next
    fix t :: RealTimeMapApp and e :: "real \<times> pointer_event"
    assume "e \<in> set tail" "\<not> isDrawing t \<and> actions t = actions rst"
    then show "\<not> isDrawing (rtm_pointer t e) \<and> actions (rtm_pointer t e) = actions rst"
      using rtm_pan_step [of t e] nd [of e] by simp
  qed
  have draw: "\<forall>t \<in> set (states rtm_pointer s1 tail).
               \<not> isPanning t \<and> scale t = scale rst \<and> pan t = pan rst"
    if "\<not> isPanning s1"
  proof (rule states_inv [where P = "\<lambda>t::RealTimeMapApp. \<not> isPanning t \<and> scale t = scale rst \<and>
                                        pan t = pan rst"])
    show "\<not> isPanning s1 \<and> scale s1 = scale rst \<and> pan s1 = pan rst"
      using that down(3,4) by simp
  next
    fix t :: RealTimeMapApp and e :: "real \<times> pointer_event"
    assume "e \<in> set tail"
      "\<not> isPanning t \<and> scale t = scale rst \<and> pan t = pan rst"
    then show "\<not> isPanning (rtm_pointer t e) \<and> scale (rtm_pointer t e) = scale rst \<and>
               pan (rtm_pointer t e) = pan rst"
      using rtm_draw_step [of t e] nd [of e] by simp
  qed
  have excl: "\<forall>t \<in> set run. \<not> (isPanning t \<and> isDrawing t)"
    using pan draw down(1) idle unfolding run by (cases "isDrawing s1") auto
  have before_up: "\<not> (isPanning (foldl rtm_pointer s1 moves) \<and> isDrawing (foldl rtm_pointer s1 moves))"
  proof (cases "isDrawing s1")
    case True
    with down(1) have "\<not> isPanning s1" by simp
    then have "\<not> isPanning (foldl rtm_pointer s1 moves)"
    proof (rule foldl_inv [where P = "\<lambda>t::RealTimeMapApp. \<not> isPanning t"])
      fix t :: RealTimeMapApp and e :: "real \<times> pointer_event"
      assume "e \<in> set moves" "\<not> isPanning t"
      then show "\<not> isPanning (rtm_pointer t e)"
        using rtm_draw_step [of t e] ndm [of e] by simp
    qed
    then show ?thesis by simp
  next
    case False
    then have "\<not> isDrawing (foldl rtm_pointer s1 moves)"
    proof (rule foldl_inv [where P = "\<lambda>t::RealTimeMapApp. \<not> isDrawing t"])
      fix t :: RealTimeMapApp and e :: "real \<times> pointer_event"
      assume "e \<in> set moves" "\<not> isDrawing t"
      then show "\<not> isDrawing (rtm_pointer t e)"
        using rtm_pan_step [of t e] ndm [of e] by simp
    qed
    then show ?thesis by simp
  qed
  have last: "last run = rtm_handleMouseUp (foldl rtm_pointer s1 moves) (fst u) (snd u)"
    by (simp add: run states_nonempty states_last tail_def)
  have final: "\<not> isPanning (last run) \<and> \<not> isDrawing (last run)"
    unfolding last using before_up by (rule rtm_up_idle)
  have pan_all: "\<forall>t \<in> set run. actions t = actions rst" if "isPanning s1"
    using that down(1) pan unfolding run by auto
  have draw_all: "\<forall>t \<in> set run. scale t = scale rst \<and> pan t = pan rst"
    if "isDrawing s1"
    using that down(1) draw unfolding run by auto
  show ?thesis
    unfolding Let_def run_def [symmetric] s1_def [symmetric]
    using excl final down(5) pan_all draw_all by blast
qed



subsection \<open>Single events, in any state\<close>

lemma cdt_panning_records_nothing:
  "isPanning t \<Longrightarrow>
   drawActions (cdt_handleMouseMove t now e) = drawActions t \<and>
   drawActions (cdt_handleMouseUp t now e) = drawActions t"
  by (simp add: cdt_handleMouseMove_def cdt_handleMouseUp_def Let_def)

lemma cdt_not_panning_keeps_view:
  "\<not> isPanning t \<Longrightarrow>
   scale (cdt_pointer t ev) = scale t \<and> panX (cdt_pointer t ev) = panX t \<and>
   panY (cdt_pointer t ev) = panY t"
proof (cases ev)
  case (Pair now pe)
  assume "\<not> isPanning t"
  with Pair show ?thesis
    by (cases pe)
      (simp_all add: cdt_handleMouseDown_def cdt_handleMouseMove_def cdt_handleMouseUp_def Let_def)
qed

lemma rtm_panning_records_nothing:
  "isPanning t \<Longrightarrow>
   actions (rtm_handleMouseMove t now e) = actions t \<and>
   actions (rtm_handleMouseUp t now e) = actions t"
  by (simp add: rtm_handleMouseMove_def rtm_handleMouseUp_def Let_def)

lemma rtm_not_panning_keeps_view:
  "\<not> isPanning t \<Longrightarrow> scale (rtm_pointer t ev) = scale t \<and> pan (rtm_pointer t ev) = pan t"
proof (cases ev)
  case (Pair now pe)
  assume "\<not> isPanning t"
  with Pair show ?thesis
    by (cases pe)
      (simp_all add: rtm_handleMouseDown_def rtm_handleMouseMove_def rtm_handleMouseUp_def
         pushAction_def Let_def)
qed

subsection \<open>Sequences of gestures\<close>

lemma gestures_Cons: "gestures (g # gs) = gesture (fst g) (fst (snd g)) (snd (snd g)) @ gestures gs"
  by (simp add: gestures_def)

lemma cdt_gestures:
  assumes "\<not> isPanning s" "\<not> isDrawing s"
  shows "\<forall>t \<in> set (states cdt_pointer s (gestures gs)). \<not> (isPanning t \<and> isDrawing t)"
  using assms
proof (induction gs arbitrary: s)
  case Nil
  then show ?case by (simp add: gestures_def)
next
  case (Cons g gs)
  define s' where "s' = foldl cdt_pointer s (gesture (fst g) (fst (snd g)) (snd (snd g)))"
  have one: "(\<forall>t \<in> set (states cdt_pointer s (gesture (fst g) (fst (snd g)) (snd (snd g)))).
                \<not> (isPanning t \<and> isDrawing t)) \<and> \<not> isPanning s' \<and> \<not> isDrawing s'"
    using cdt_gesture [OF Cons.prems, of "fst g" "fst (snd g)" "snd (snd g)"]
    by (simp add: Let_def states_last s'_def)
  then have "\<forall>t \<in> set (states cdt_pointer s' (gestures gs)). \<not> (isPanning t \<and> isDrawing t)"
    using Cons.IH [of s'] by simp
  with one show ?case
    by (simp add: gestures_Cons set_states_append s'_def [symmetric]) blast
qed

lemma rtm_gestures:
  assumes "\<not> isPanning s" "\<not> isDrawing s"
  shows "\<forall>t \<in> set (states rtm_pointer s (gestures gs)). \<not> (isPanning t \<and> isDrawing t)"
  using assms
proof (induction gs arbitrary: s)
  case Nil
  then show ?case by (simp add: gestures_def)
next
  case (Cons g gs)
  define s' where "s' = foldl rtm_pointer s (gesture (fst g) (fst (snd g)) (snd (snd g)))"
  have one: "(\<forall>t \<in> set (states rtm_pointer s (gesture (fst g) (fst (snd g)) (snd (snd g)))).
                \<not> (isPanning t \<and> isDrawing t)) \<and> \<not> isPanning s' \<and> \<not> isDrawing s'"
    using rtm_gesture [OF Cons.prems, of "fst g" "fst (snd g)" "snd (snd g)"]
    by (simp add: Let_def states_last s'_def)
  then have "\<forall>t \<in> set (states rtm_pointer s' (gestures gs)). \<not> (isPanning t \<and> isDrawing t)"
    using Cons.IH [of s'] by simp
  with one show ?case
    by (simp add: gestures_Cons set_states_append s'_def [symmetric]) blast
qed

text \<open>
  Gestures that start in the idle state (neither \<^verbatim>\<open>isPanning\<close> nor \<^verbatim>\<open>isDrawing\<close>), each a
  pointer-down, any number of moves and a pointer-up: in every state such a gesture
  passes through the two flags are never both set, after the pointer-up the state is idle
  again, a gesture that starts as panning leaves the action list as it was and a gesture
  that starts as drawing leaves scale and pan as they were; the same holds through any
  sequence of such gestures. In any state, a move or a pointer-up received while
  \<^verbatim>\<open>isPanning\<close> is set appends no action, and a pointer event received while it is not set
  changes neither scale nor pan.
\<close>

lemma gestures_from_idle:
  "(\<not> isPanning cst \<and> \<not> isDrawing cst \<longrightarrow>
      (let run = states cdt_pointer cst (gesture d ms u);
           s1 = cdt_handleMouseDown cst (snd d)
       in (\<forall>t \<in> set run. \<not> (isPanning t \<and> isDrawing t)) \<and>
          \<not> isPanning (last run) \<and> \<not> isDrawing (last run) \<and>
          (containerRef cst \<noteq> None \<longrightarrow>
             isPanning s1 = ctrlKey (snd d) \<and> isDrawing s1 = (\<not> ctrlKey (snd d))) \<and>
          (isPanning s1 \<longrightarrow> (\<forall>t \<in> set run. drawActions t = drawActions cst)) \<and>
          (isDrawing s1 \<longrightarrow>
             (\<forall>t \<in> set run. scale t = scale cst \<and> panX t = panX cst \<and> panY t = panY cst))) \<and>
      (\<forall>t \<in> set (states cdt_pointer cst (gestures gs)). \<not> (isPanning t \<and> isDrawing t))) \<and>
   (\<not> isPanning rst \<and> \<not> isDrawing rst \<longrightarrow>
      (let run = states rtm_pointer rst (gesture d ms u);
           s1 = rtm_handleMouseDown rst (snd d)
       in (\<forall>t \<in> set run. \<not> (isPanning t \<and> isDrawing t)) \<and>
          \<not> isPanning (last run) \<and> \<not> isDrawing (last run) \<and>
          isPanning s1 = (button (snd d) \<noteq> 2 \<and> \<not> menuOpen rst \<and> ctrlKey (snd d)) \<and>
          isDrawing s1 = (button (snd d) \<noteq> 2 \<and> \<not> menuOpen rst \<and> \<not> ctrlKey (snd d)) \<and>
          (isPanning s1 \<longrightarrow> (\<forall>t \<in> set run. actions t = actions rst)) \<and>
          (isDrawing s1 \<longrightarrow> (\<forall>t \<in> set run. scale t = scale rst \<and> pan t = pan rst))) \<and>
      (\<forall>t \<in> set (states rtm_pointer rst (gestures gs)). \<not> (isPanning t \<and> isDrawing t))) \<and>
   (isPanning ct \<longrightarrow>
      drawActions (cdt_handleMouseMove ct now e) = drawActions ct \<and>
      drawActions (cdt_handleMouseUp ct now e) = drawActions ct) \<and>
   (\<not> isPanning ct \<longrightarrow>
      scale (cdt_pointer ct ev) = scale ct \<and> panX (cdt_pointer ct ev) = panX ct \<and>
      panY (cdt_pointer ct ev) = panY ct) \<and>
   (isPanning rt \<longrightarrow>
      actions (rtm_handleMouseMove rt now e) = actions rt \<and>
      actions (rtm_handleMouseUp rt now e) = actions rt) \<and>
   (\<not> isPanning rt \<longrightarrow> scale (rtm_pointer rt ev) = scale rt \<and> pan (rtm_pointer rt ev) = pan rt)"
  using cdt_gesture [of cst d ms u] cdt_gestures [of cst gs]
        rtm_gesture [of rst d ms u] rtm_gestures [of rst gs]
        cdt_panning_records_nothing [of ct now e] cdt_not_panning_keeps_view [of ct ev]
        rtm_panning_records_nothing [of rt now e] rtm_not_panning_keeps_view [of rt ev]
  by blast

text \<open>
  C5 at a concrete input, in both components: the primary button goes down without Ctrl
  and starts a drawing gesture; before any pointer-up the middle button goes down with
  Ctrl held, and \<^verbatim>\<open>handleMouseDown\<close> sets \<^verbatim>\<open>isPanning\<close> without looking at \<^verbatim>\<open>isDrawing\<close>,
  so both flags are set; the next move changes the pan from \<open>(0, 0)\<close> to \<open>(50, 40)\<close> while
  \<^verbatim>\<open>isDrawing\<close> is set; the pointer-up clears \<^verbatim>\<open>isPanning\<close> only and leaves \<^verbatim>\<open>isDrawing\<close>
  set, so the state is not idle after it.
\<close>

theorem second_pointer_down_sets_both_flags:
  "\<not> isPanning cdt_example \<and> \<not> isDrawing cdt_example \<and>
   isDrawing (foldl cdt_pointer cdt_example (butlast (butlast (butlast second_down_events)))) \<and>
   \<not> isPanning (foldl cdt_pointer cdt_example (butlast (butlast (butlast second_down_events)))) \<and>
   isPanning (foldl cdt_pointer cdt_example (butlast (butlast second_down_events))) \<and>
   isDrawing (foldl cdt_pointer cdt_example (butlast (butlast second_down_events))) \<and>
   panX (foldl cdt_pointer cdt_example (butlast (butlast second_down_events))) = 0 \<and>
   panY (foldl cdt_pointer cdt_example (butlast (butlast second_down_events))) = 0 \<and>
   isDrawing (foldl cdt_pointer cdt_example (butlast second_down_events)) \<and>
   panX (foldl cdt_pointer cdt_example (butlast second_down_events)) = 50 \<and>
   panY (foldl cdt_pointer cdt_example (butlast second_down_events)) = 40 \<and>
   isDrawing (foldl cdt_pointer cdt_example second_down_events) \<and>
   \<not> isPanning (foldl cdt_pointer cdt_example second_down_events) \<and>
   \<not> isPanning rtm_example \<and> \<not> isDrawing rtm_example \<and>
   isDrawing (foldl rtm_pointer rtm_example (butlast (butlast (butlast second_down_events)))) \<and>
   \<not> isPanning (foldl rtm_pointer rtm_example (butlast (butlast (butlast second_down_events)))) \<and>
   isPanning (foldl rtm_pointer rtm_example (butlast (butlast second_down_events))) \<and>
   isDrawing (foldl rtm_pointer rtm_example (butlast (butlast second_down_events))) \<and>
   pan (foldl rtm_pointer rtm_example (butlast (butlast second_down_events))) = (0, 0) \<and>
   isDrawing (foldl rtm_pointer rtm_example (butlast second_down_events)) \<and>
   pan (foldl rtm_pointer rtm_example (butlast second_down_events)) = (50, 40) \<and>
   isDrawing (foldl rtm_pointer rtm_example second_down_events) \<and>
   \<not> isPanning (foldl rtm_pointer rtm_example second_down_events)"
  by (simp add: second_down_events_def example_mouse_def
        cdt_handleMouseDown_def cdt_handleMouseMove_def cdt_handleMouseUp_def
        rtm_handleMouseDown_def rtm_handleMouseMove_def rtm_handleMouseUp_def
        cdt_screenToWorld_def rtm_screenToWorld_def cdt_clampPan_def rtm_clampPan_def
        Let_def example_defs)

end
